theory Spec2Isabelle
  imports Complex_Main
begin

section \<open>JavaScript strings and numbers\<close>

text \<open>
  A JavaScript string is a sequence of UTF-16 code units. Each code unit is modelled by
  its number, so that every string the program can see has a counterpart here (a
  \<^typ>\<open>char\<close> of HOL has only eight bits). \<open>js\<close> turns a literal of the
  source into that representation.
\<close>

type_synonym jsstring = "nat list"

definition js :: "string \<Rightarrow> jsstring" where
  "js s = map of_char s"

text \<open>\<^verbatim>\<open>xs.join(sep)\<close> on an array of strings.\<close>

fun join :: "jsstring \<Rightarrow> jsstring list \<Rightarrow> jsstring" where
  "join sep [] = []"
| "join sep [x] = x"
| "join sep (x # y # ys) = x @ sep @ join sep (y # ys)"

text \<open>
  The numbers the modelled code computes with (byte counts, millisecond timestamps) are
  integers well inside the range in which a JavaScript number is exact; they are modelled
  as \<^typ>\<open>int\<close>. \<open>toString\<close> is \<^verbatim>\<open>Number.prototype.toString\<close> on such a
  number, also what a template literal interpolates: the decimal digits, with a leading
  minus sign for a negative number.
\<close>

fun digits :: "nat \<Rightarrow> jsstring" where
  "digits n = (if n < 10 then [48 + n] else digits (n div 10) @ [48 + n mod 10])"

declare digits.simps [simp del]

definition toString :: "int \<Rightarrow> jsstring" where
  "toString n = (if n < 0 then 45 # digits (nat (- n)) else digits (nat n))"

text \<open>
  \<^verbatim>\<open>Math.round(a / b)\<close> for integers \<open>a\<close> and \<open>b > 0\<close>: the
  nearest integer, a tie going up.
\<close>

definition Math_round_div :: "int \<Rightarrow> int \<Rightarrow> int" where
  "Math_round_div a b = (2 * a + b) div (2 * b)"

text \<open>
  What a \<^verbatim>\<open>catch\<close> block can receive: an instance of \<^verbatim>\<open>Error\<close>
  with its message, or any other thrown value.
\<close>

datatype thrown = ErrorObject jsstring | NonError

datatype 'a outcome = Throws thrown | Returns 'a


section \<open>JavaScript values and \<^verbatim>\<open>JSON.parse\<close>\<close>

text \<open>
  The values the code handles at run time: what \<^verbatim>\<open>JSON.parse\<close> can build,
  and \<^verbatim>\<open>undefined\<close>, which reading a missing property gives. A number carries
  the exact value of its literal. An object carries its members in source order; a later
  member with the same key overrides an earlier one when a property is read.
\<close>

datatype jsval =
  JUndefined
| JNull
| JBool bool
| JNumber rat
| JString jsstring
| JArray "jsval list"
| JObject "(jsstring \<times> jsval) list"

text \<open>
  Truthiness, as \<^verbatim>\<open>||\<close>, \<^verbatim>\<open>!\<close> and \<^verbatim>\<open>if\<close> test it. A number is
  falsy when it is zero as a double: when the literal's value rounds to zero, which is
  when its magnitude is at most \<open>2\<^sup>-\<^sup>1\<^sup>0\<^sup>7\<^sup>5\<close>.
\<close>

fun truthy :: "jsval \<Rightarrow> bool" where
  "truthy JUndefined = False"
| "truthy JNull = False"
| "truthy (JBool b) = b"
| "truthy (JNumber q) = (\<bar>q\<bar> > 1 / 2 ^ 1075)"
| "truthy (JString s) = (s \<noteq> [])"
| "truthy (JArray xs) = True"
| "truthy (JObject kvs) = True"

definition isArray :: "jsval \<Rightarrow> bool" where
  "isArray v = (case v of JArray xs \<Rightarrow> True | _ \<Rightarrow> False)"

text \<open>
  Reading the property \<open>k\<close> of an object: the value of its last member with that key,
  \<^verbatim>\<open>undefined\<close> when there is none. Used for names no built-in prototype defines.
\<close>

definition member :: "(jsstring \<times> jsval) list \<Rightarrow> jsstring \<Rightarrow> jsval" where
  "member ms k = (case map_of (rev ms) k of None \<Rightarrow> JUndefined | Some v \<Rightarrow> v)"

text \<open>
  Reading such a property of any value: a \<^verbatim>\<open>TypeError\<close> (\<open>None\<close>) on
  \<^verbatim>\<open>undefined\<close> and \<^verbatim>\<open>null\<close>, \<^verbatim>\<open>undefined\<close> on a primitive
  or an array.
\<close>

fun property :: "jsval \<Rightarrow> jsstring \<Rightarrow> jsval option" where
  "property JUndefined k = None"
| "property JNull k = None"
| "property (JObject ms) k = Some (member ms k)"
| "property _ k = Some JUndefined"

text \<open>
  \<^verbatim>\<open>JSON.parse\<close> is the platform's; it is modelled after the JSON grammar of
  ECMA-404 in two passes, each a fold over its input, so both are total. The first pass
  reads the text one code unit at a time and produces the tokens.
\<close>

datatype token = LBrace | RBrace | LBracket | RBracket | Colon | Comma | Literal jsval

text \<open>
  A number literal is \<^verbatim>\<open>-? (0 | [1-9][0-9]*) (. [0-9]+)? ([eE] [+-]? [0-9]+)?\<close>; the
  phases say how far the literal has been read, the accumulator holds its sign, its digits
  as one natural number, the count of fraction digits, and the exponent.
\<close>

datatype num_phase =
  AfterMinus | AfterZero | InInt | AfterDot | InFrac | AfterE | AfterESign | InExp

record num_acc =
  negative :: bool
  mantissa :: nat
  frac_digits :: nat
  exp_negative :: bool
  exponent :: nat

text \<open>
  The lexer's states: between tokens; inside a string (the code units read so far, last
  first); after a backslash; inside a \<^verbatim>\<open>\u\<close> escape (the hexadecimal digits read
  so far); inside \<^verbatim>\<open>true\<close>, \<^verbatim>\<open>false\<close> or \<^verbatim>\<open>null\<close> (the code
  units still expected); inside a number.
\<close>

datatype lex_state =
  LStart
| LString jsstring
| LEscape jsstring
| LUnicode jsstring "nat list"
| LWord jsstring jsval
| LNumber num_phase num_acc

definition num_value :: "num_acc \<Rightarrow> rat" where
  "num_value a =
     (let e = (if exp_negative a then - int (exponent a) else int (exponent a))
                - int (frac_digits a);
          m = (if negative a then - of_nat (mantissa a) else of_nat (mantissa a))
      in if e \<ge> 0 then m * 10 ^ nat e else m / 10 ^ nat (- e))"

definition isDigit :: "nat \<Rightarrow> bool" where
  "isDigit c = (48 \<le> c \<and> c \<le> 57)"

definition hexValue :: "nat \<Rightarrow> nat option" where
  "hexValue c =
     (if 48 \<le> c \<and> c \<le> 57 then Some (c - 48)
      else if 65 \<le> c \<and> c \<le> 70 then Some (c - 55)
      else if 97 \<le> c \<and> c \<le> 102 then Some (c - 87)
      else None)"

definition new_num :: num_acc where
  "new_num = \<lparr>negative = False, mantissa = 0, frac_digits = 0, exp_negative = False, exponent = 0\<rparr>"

text \<open>
  A code unit met between tokens: white space (tab, line feed, carriage return, space) is
  skipped, punctuation is a token, and a quote, a minus sign, a digit or one of
  \<^verbatim>\<open>t f n\<close> starts a literal. Anything else is a syntax error (\<open>None\<close>).
\<close>

definition lex_start :: "nat \<Rightarrow> (token list \<times> lex_state) option" where
  "lex_start c =
     (if c = 9 \<or> c = 10 \<or> c = 13 \<or> c = 32 then Some ([], LStart)
      else if c = 123 then Some ([LBrace], LStart)
      else if c = 125 then Some ([RBrace], LStart)
      else if c = 91 then Some ([LBracket], LStart)
      else if c = 93 then Some ([RBracket], LStart)
      else if c = 58 then Some ([Colon], LStart)
      else if c = 44 then Some ([Comma], LStart)
      else if c = 34 then Some ([], LString [])
      else if c = 45 then Some ([], LNumber AfterMinus (new_num\<lparr>negative := True\<rparr>))
      else if c = 48 then Some ([], LNumber AfterZero new_num)
      else if isDigit c then Some ([], LNumber InInt (new_num\<lparr>mantissa := c - 48\<rparr>))
      else if c = 116 then Some ([], LWord (js ''rue'') (JBool True))
      else if c = 102 then Some ([], LWord (js ''alse'') (JBool False))
      else if c = 110 then Some ([], LWord (js ''ull'') JNull)
      else None)"

text \<open>A number ends at the first code unit that cannot continue it; that code unit is
  then read as one met between tokens.\<close>

definition num_end :: "num_acc \<Rightarrow> nat \<Rightarrow> (token list \<times> lex_state) option" where
  "num_end a c =
     (case lex_start c of
        None \<Rightarrow> None
      | Some (ts, st) \<Rightarrow> Some (Literal (JNumber (num_value a)) # ts, st))"

fun lex_number :: "num_phase \<Rightarrow> num_acc \<Rightarrow> nat \<Rightarrow> (token list \<times> lex_state) option" where
  "lex_number AfterMinus a c =
     (if c = 48 then Some ([], LNumber AfterZero a)
      else if isDigit c then Some ([], LNumber InInt (a\<lparr>mantissa := c - 48\<rparr>))
      else None)"
| "lex_number AfterZero a c =
     (if c = 46 then Some ([], LNumber AfterDot a)
      else if c = 101 \<or> c = 69 then Some ([], LNumber AfterE a)
      else num_end a c)"
| "lex_number InInt a c =
     (if isDigit c then Some ([], LNumber InInt (a\<lparr>mantissa := 10 * mantissa a + (c - 48)\<rparr>))
      else if c = 46 then Some ([], LNumber AfterDot a)
      else if c = 101 \<or> c = 69 then Some ([], LNumber AfterE a)
      else num_end a c)"
| "lex_number AfterDot a c =
     (if isDigit c then
        Some ([], LNumber InFrac (a\<lparr>mantissa := 10 * mantissa a + (c - 48),
                                      frac_digits := frac_digits a + 1\<rparr>))
      else None)"
| "lex_number InFrac a c =
     (if isDigit c then
        Some ([], LNumber InFrac (a\<lparr>mantissa := 10 * mantissa a + (c - 48),
                                      frac_digits := frac_digits a + 1\<rparr>))
      else if c = 101 \<or> c = 69 then Some ([], LNumber AfterE a)
      else num_end a c)"
| "lex_number AfterE a c =
     (if c = 43 then Some ([], LNumber AfterESign a)
      else if c = 45 then Some ([], LNumber AfterESign (a\<lparr>exp_negative := True\<rparr>))
      else if isDigit c then Some ([], LNumber InExp (a\<lparr>exponent := c - 48\<rparr>))
      else None)"
| "lex_number AfterESign a c =
     (if isDigit c then Some ([], LNumber InExp (a\<lparr>exponent := c - 48\<rparr>)) else None)"
| "lex_number InExp a c =
     (if isDigit c then Some ([], LNumber InExp (a\<lparr>exponent := 10 * exponent a + (c - 48)\<rparr>))
      else num_end a c)"

text \<open>
  Inside a string a quote ends it, a backslash starts an escape, and a control character
  (below U+0020) is a syntax error.
\<close>

fun lex_step :: "lex_state \<Rightarrow> nat \<Rightarrow> (token list \<times> lex_state) option" where
  "lex_step LStart c = lex_start c"
| "lex_step (LString acc) c =
     (if c = 34 then Some ([Literal (JString (rev acc))], LStart)
      else if c = 92 then Some ([], LEscape acc)
      else if c < 32 then None
      else Some ([], LString (c # acc)))"
| "lex_step (LEscape acc) c =
     (if c = 34 \<or> c = 92 \<or> c = 47 then Some ([], LString (c # acc))
      else if c = 98 then Some ([], LString (8 # acc))
      else if c = 102 then Some ([], LString (12 # acc))
      else if c = 110 then Some ([], LString (10 # acc))
      else if c = 114 then Some ([], LString (13 # acc))
      else if c = 116 then Some ([], LString (9 # acc))
      else if c = 117 then Some ([], LUnicode acc [])
      else None)"
| "lex_step (LUnicode acc hs) c =
     (case hexValue c of
        None \<Rightarrow> None
      | Some h \<Rightarrow>
          if length hs = 3 then Some ([], LString (foldl (\<lambda>v d. 16 * v + d) 0 (hs @ [h]) # acc))
          else Some ([], LUnicode acc (hs @ [h])))"
| "lex_step (LWord [] v) c = None"
| "lex_step (LWord (x # rest) v) c =
     (if c \<noteq> x then None
      else if rest = [] then Some ([Literal v], LStart)
      else Some ([], LWord rest v))"
| "lex_step (LNumber ph a) c = lex_number ph a c"

fun lex_end :: "lex_state \<Rightarrow> token list option" where
  "lex_end LStart = Some []"
| "lex_end (LNumber ph a) =
     (if ph = AfterZero \<or> ph = InInt \<or> ph = InFrac \<or> ph = InExp
      then Some [Literal (JNumber (num_value a))] else None)"
| "lex_end _ = None"

fun lex_run :: "lex_state \<Rightarrow> jsstring \<Rightarrow> token list option" where
  "lex_run st [] = lex_end st"
| "lex_run st (c # cs) =
     (case lex_step st c of
        None \<Rightarrow> None
      | Some (ts, st') \<Rightarrow> (case lex_run st' cs of None \<Rightarrow> None | Some toks \<Rightarrow> Some (ts @ toks)))"

text \<open>
  The second pass reads the tokens with a stack of the containers that are open around
  the current position: an array with the elements read so far, or an object with the
  members read so far and the key whose value is being read.
\<close>

datatype frame = InArray "jsval list" | InObject "(jsstring \<times> jsval) list" jsstring

datatype mode =
  NeedValue
| ArrayOpen
| ObjectOpen
| NeedKey "(jsstring \<times> jsval) list"
| NeedColon "(jsstring \<times> jsval) list" jsstring
| AfterValue jsval

fun need_value :: "frame list \<Rightarrow> token \<Rightarrow> (mode \<times> frame list) option" where
  "need_value stack (Literal v) = Some (AfterValue v, stack)"
| "need_value stack LBracket = Some (ArrayOpen, stack)"
| "need_value stack LBrace = Some (ObjectOpen, stack)"
| "need_value stack _ = None"

fun parse_step :: "mode \<Rightarrow> frame list \<Rightarrow> token \<Rightarrow> (mode \<times> frame list) option" where
  "parse_step NeedValue stack t = need_value stack t"
| "parse_step ArrayOpen stack t =
     (if t = RBracket then Some (AfterValue (JArray []), stack)
      else need_value (InArray [] # stack) t)"
| "parse_step ObjectOpen stack t =
     (case t of
        RBrace \<Rightarrow> Some (AfterValue (JObject []), stack)
      | Literal (JString k) \<Rightarrow> Some (NeedColon [] k, stack)
      | _ \<Rightarrow> None)"
| "parse_step (NeedKey ms) stack t =
     (case t of Literal (JString k) \<Rightarrow> Some (NeedColon ms k, stack) | _ \<Rightarrow> None)"
| "parse_step (NeedColon ms k) stack t =
     (if t = Colon then Some (NeedValue, InObject ms k # stack) else None)"
| "parse_step (AfterValue v) [] t = None"
| "parse_step (AfterValue v) (InArray es # stack) t =
     (case t of
        Comma \<Rightarrow> Some (NeedValue, InArray (es @ [v]) # stack)
      | RBracket \<Rightarrow> Some (AfterValue (JArray (es @ [v])), stack)
      | _ \<Rightarrow> None)"
| "parse_step (AfterValue v) (InObject ms k # stack) t =
     (case t of
        Comma \<Rightarrow> Some (NeedKey (ms @ [(k, v)]), stack)
      | RBrace \<Rightarrow> Some (AfterValue (JObject (ms @ [(k, v)])), stack)
      | _ \<Rightarrow> None)"

fun parse_run :: "mode \<Rightarrow> frame list \<Rightarrow> token list \<Rightarrow> jsval option" where
  "parse_run m stack [] = (case (m, stack) of (AfterValue v, []) \<Rightarrow> Some v | _ \<Rightarrow> None)"
| "parse_run m stack (t # ts) =
     (case parse_step m stack t of
        None \<Rightarrow> None
      | Some (m', stack') \<Rightarrow> parse_run m' stack' ts)"

text \<open>\<^verbatim>\<open>JSON.parse(text)\<close>: the value, or \<open>None\<close> for a \<^verbatim>\<open>SyntaxError\<close>.\<close>

definition JSON_parse :: "jsstring \<Rightarrow> jsval option" where
  "JSON_parse text =
     (case lex_run LStart text of None \<Rightarrow> None | Some ts \<Rightarrow> parse_run NeedValue [] ts)"

text \<open>The value is an object.\<close>

definition isObject :: "jsval \<Rightarrow> bool" where
  "isObject v = (case v of JObject ms \<Rightarrow> True | _ \<Rightarrow> False)"

text \<open>
  A predicate for the proofs: the outermost container still open is an object (or the
  value just completed at the top level is one).
\<close>

definition outer_object :: "mode \<Rightarrow> frame list \<Rightarrow> bool" where
  "outer_object m stack =
     (if stack = [] then
        (case m of
           ObjectOpen \<Rightarrow> True
         | NeedKey ms \<Rightarrow> True
         | NeedColon ms k \<Rightarrow> True
         | AfterValue v \<Rightarrow> isObject v
         | _ \<Rightarrow> False)
      else (case last stack of InObject ms k \<Rightarrow> True | InArray es \<Rightarrow> False))"


section \<open>File validation and upload (src/lib/supabaseStorage.ts)\<close>

text \<open>The fields of a browser \<^verbatim>\<open>File\<close> the code reads: name, type and size.\<close>

record jsfile =
  file_name :: jsstring
  file_type :: jsstring
  file_size :: int

text \<open>The result \<^verbatim>\<open>{ valid: boolean; error?: string }\<close>.\<close>

record validation =
  valid :: bool
  val_error :: "jsstring option"

definition validateFile :: "jsfile \<Rightarrow> jsstring list \<Rightarrow> int \<Rightarrow> validation" where
  "validateFile file allowedTypes maxSizeInBytes =
     (if file_type file \<notin> set allowedTypes then
        \<lparr>valid = False,
         val_error = Some (js ''File type not allowed. Allowed types: ''
                            @ join (js '', '') allowedTypes)\<rparr>
      else if file_size file > maxSizeInBytes then
        (let maxSizeMB = Math_round_div maxSizeInBytes (1024 * 1024) in
         \<lparr>valid = False,
          val_error = Some (js ''File too large. Maximum size: ''
                             @ toString maxSizeMB @ js ''MB'')\<rparr>)
      else \<lparr>valid = True, val_error = None\<rparr>)"

definition validateProfilePicture :: "jsfile \<Rightarrow> validation" where
  "validateProfilePicture file =
     (let allowedTypes = [js ''image/jpeg'', js ''image/png'', js ''image/gif'', js ''image/webp''];
          maxSize = 5 * 1024 * 1024
      in validateFile file allowedTypes maxSize)"

definition validateUserVideo :: "jsfile \<Rightarrow> validation" where
  "validateUserVideo file =
     (let allowedTypes = [js ''video/mp4'', js ''video/webm'', js ''video/quicktime'',
                          js ''video/x-msvideo''];
          maxSize = 50 * 1024 * 1024
      in validateFile file allowedTypes maxSize)"

text \<open>
  The upload wrapper talks to the hosted object store. The store is a parameter: what
  \<^verbatim>\<open>storage.from(bucket).upload(path, file, ...)\<close> answers (an error with its
  message, success, or a rejected promise) and the public URL it gives for a path. Every
  request the wrapper sends is recorded, so that the path actually written can be read off.
\<close>

datatype upload_reply = UploadError jsstring | UploadOk

record object_store =
  upload :: "jsstring \<Rightarrow> jsstring \<Rightarrow> jsfile \<Rightarrow> upload_reply outcome"
  publicUrl :: "jsstring \<Rightarrow> jsstring \<Rightarrow> jsstring"

datatype store_request =
  UploadRequest jsstring jsstring jsfile
| PublicUrlRequest jsstring jsstring

text \<open>The result \<^verbatim>\<open>UploadResult\<close>; an absent optional field is \<open>None\<close>.\<close>

record UploadResult =
  up_success :: bool
  up_url :: "jsstring option"
  up_error :: "jsstring option"
  up_path :: "jsstring option"

definition uploadFile ::
  "object_store \<Rightarrow> jsstring \<Rightarrow> jsstring \<Rightarrow> jsfile \<Rightarrow> jsstring
     \<Rightarrow> UploadResult \<times> store_request list" where
  "uploadFile store bucket path file userId =
     (let fullPath = userId @ js ''/'' @ path in
      case upload store bucket fullPath file of
        Throws e \<Rightarrow>
          (\<lparr>up_success = False, up_url = None,
            up_error = Some (case e of ErrorObject m \<Rightarrow> m | NonError \<Rightarrow> js ''Unknown error''),
            up_path = None\<rparr>,
           [UploadRequest bucket fullPath file])
      | Returns (UploadError m) \<Rightarrow>
          (\<lparr>up_success = False, up_url = None, up_error = Some m, up_path = None\<rparr>,
           [UploadRequest bucket fullPath file])
      | Returns UploadOk \<Rightarrow>
          (\<lparr>up_success = True, up_url = Some (publicUrl store bucket fullPath),
            up_error = None, up_path = Some fullPath\<rparr>,
           [UploadRequest bucket fullPath file, PublicUrlRequest bucket fullPath]))"

text \<open>
  \<^verbatim>\<open>file.name.split('.').pop() || fallback\<close>: the text after the last dot (the
  whole name when it has no dot), or the fallback when that text is empty.
\<close>

definition fileExtension :: "jsstring \<Rightarrow> jsstring \<Rightarrow> jsstring" where
  "fileExtension name fallback =
     (let last_part = rev (takeWhile (\<lambda>c. c \<noteq> 46) (rev name)) in
      if last_part = [] then fallback else last_part)"

text \<open>\<open>timestamp\<close> is the value \<^verbatim>\<open>Date.now()\<close> returns in the call.\<close>

definition uploadProfilePicture ::
  "object_store \<Rightarrow> int \<Rightarrow> jsfile \<Rightarrow> jsstring \<Rightarrow> UploadResult \<times> store_request list" where
  "uploadProfilePicture store timestamp file userId =
     (let filename = js ''profile_'' @ toString timestamp @ js ''.''
                       @ fileExtension (file_name file) (js ''jpg'')
      in uploadFile store (js ''profile_pictures'') filename file userId)"

text \<open>An omitted or empty \<^verbatim>\<open>customName\<close> is falsy.\<close>

definition uploadUserVideo ::
  "object_store \<Rightarrow> int \<Rightarrow> jsfile \<Rightarrow> jsstring \<Rightarrow> jsstring option
     \<Rightarrow> UploadResult \<times> store_request list" where
  "uploadUserVideo store timestamp file userId customName =
     (let ext = fileExtension (file_name file) (js ''mp4'');
          filename =
            (case customName of
               None \<Rightarrow> js ''video_'' @ toString timestamp @ js ''.'' @ ext
             | Some c \<Rightarrow>
                 if c = [] then js ''video_'' @ toString timestamp @ js ''.'' @ ext
                 else c @ js ''_'' @ toString timestamp @ js ''.'' @ ext)
      in uploadFile store (js ''user_videos'') filename file userId)"

text \<open>The first segment of a slash-separated object path: its top-level folder.\<close>

definition first_segment :: "jsstring \<Rightarrow> jsstring" where
  "first_segment p = takeWhile (\<lambda>c. c \<noteq> 47) p"

text \<open>The paths of the upload requests in a list of requests.\<close>

fun uploaded_paths :: "store_request list \<Rightarrow> jsstring list" where
  "uploaded_paths [] = []"
| "uploaded_paths (UploadRequest b p f # rs) = p # uploaded_paths rs"
| "uploaded_paths (PublicUrlRequest b p # rs) = uploaded_paths rs"


section \<open>The local session cache (src/lib/storage.ts)\<close>

text \<open>
  \<^verbatim>\<open>localStorage\<close> maps keys to strings; \<^verbatim>\<open>getItem\<close> of an absent key
  gives \<^verbatim>\<open>null\<close> (\<open>None\<close>). Every function that touches it takes the
  store and, when it writes, returns the new one.
\<close>

type_synonym localStorage = "jsstring \<rightharpoonup> jsstring"

definition USER :: jsstring where
  "USER = js ''contentgen_user''"

definition USER_PROFILE :: jsstring where
  "USER_PROFILE = js ''contentgen_user_profile''"

definition SESSION :: jsstring where
  "SESSION = js ''contentgen_session''"

definition LAST_SYNC :: jsstring where
  "LAST_SYNC = js ''contentgen_last_sync''"

text \<open>
  \<^verbatim>\<open>parseInt(s, 10)\<close>: leading white space is skipped, one sign is read, and the
  longest run of decimal digits that follows is the number; with no digit the result is
  \<^verbatim>\<open>NaN\<close>, modelled as \<open>None\<close>.
\<close>

definition isWhiteSpace :: "nat \<Rightarrow> bool" where
  "isWhiteSpace c =
     (c \<in> {9, 10, 11, 12, 13, 32, 160, 5760, 8232, 8233, 8239, 8287, 12288, 65279}
      \<or> (8192 \<le> c \<and> c \<le> 8202))"

definition digitsValue :: "jsstring \<Rightarrow> nat" where
  "digitsValue ds = foldl (\<lambda>a d. 10 * a + (d - 48)) 0 ds"

definition parseInt10 :: "jsstring \<Rightarrow> int option" where
  "parseInt10 s =
     (let S = dropWhile isWhiteSpace s;
          negative_sign = (case S of [] \<Rightarrow> False | c # r \<Rightarrow> c = 45);
          S' = (case S of [] \<Rightarrow> [] | c # r \<Rightarrow> if c = 45 \<or> c = 43 then r else S);
          Z = takeWhile isDigit S'
      in if Z = [] then None
         else Some (if negative_sign then - int (digitsValue Z) else int (digitsValue Z)))"

text \<open>
  \<open>isExpired\<close>: \<open>now\<close> is what \<^verbatim>\<open>Date.now()\<close> returns in the call. A
  comparison with \<^verbatim>\<open>NaN\<close> is false.
\<close>

definition isExpired :: "int \<Rightarrow> int option \<Rightarrow> bool" where
  "isExpired now timestamp =
     (let twentyFourHours = 24 * 60 * 60 * 1000 in
      case timestamp of None \<Rightarrow> False | Some t \<Rightarrow> now - t > twentyFourHours)"

text \<open>A string read from the store is falsy when it is absent or empty.\<close>

definition falsy_string :: "jsstring option \<Rightarrow> bool" where
  "falsy_string s = (case s of None \<Rightarrow> True | Some d \<Rightarrow> d = [])"

definition safeJsonParse :: "jsstring option \<Rightarrow> jsval \<Rightarrow> jsval" where
  "safeJsonParse data fallback =
     (if falsy_string data then fallback
      else case data of
             None \<Rightarrow> fallback
           | Some d \<Rightarrow> (case JSON_parse d of None \<Rightarrow> fallback | Some v \<Rightarrow> v))"

text \<open>
  \<^verbatim>\<open>JSON.stringify\<close> is the platform's and a parameter here: for a value it
  returns a string, returns \<^verbatim>\<open>undefined\<close> (\<open>Returns None\<close>) or throws.
  \<open>safeJsonStringify\<close> turns a throw into \<^verbatim>\<open>null\<close>; its callers only test
  the result for truthiness, so \<^verbatim>\<open>null\<close> and \<^verbatim>\<open>undefined\<close> are both
  \<open>None\<close>.
\<close>

type_synonym stringifier = "jsval \<Rightarrow> jsstring option outcome"

definition safeJsonStringify :: "stringifier \<Rightarrow> jsval \<Rightarrow> jsstring option" where
  "safeJsonStringify stringify data =
     (case stringify data of Throws e \<Rightarrow> None | Returns r \<Rightarrow> r)"

definition clearUser :: "localStorage \<Rightarrow> localStorage" where
  "clearUser ls = (ls(USER := None))(LAST_SYNC := None)"

definition clearUserProfile :: "localStorage \<Rightarrow> localStorage" where
  "clearUserProfile ls = ls(USER_PROFILE := None)"

definition clearSession :: "localStorage \<Rightarrow> localStorage" where
  "clearSession ls = ls(SESSION := None)"


text \<open>The getters return the value and the store as they leave it.\<close>

definition getUser :: "int \<Rightarrow> localStorage \<Rightarrow> jsval \<times> localStorage" where
  "getUser now ls =
     (let userData = ls USER; lastSync = ls LAST_SYNC in
      if falsy_string userData \<or> falsy_string lastSync then (JNull, ls)
      else case lastSync of
             None \<Rightarrow> (JNull, ls)
           | Some l \<Rightarrow>
               (let lastSyncTime = parseInt10 l in
                if isExpired now lastSyncTime then (JNull, clearUser ls)
                else (safeJsonParse userData JNull, ls)))"

definition saveUserProfile :: "stringifier \<Rightarrow> jsval \<Rightarrow> localStorage \<Rightarrow> localStorage" where
  "saveUserProfile stringify profile ls =
     (if truthy profile then
        (let profileData = safeJsonStringify stringify profile in
         if falsy_string profileData then ls
         else case profileData of None \<Rightarrow> ls | Some d \<Rightarrow> ls(USER_PROFILE \<mapsto> d))
      else ls(USER_PROFILE := None))"

definition getUserProfile :: "int \<Rightarrow> localStorage \<Rightarrow> jsval \<times> localStorage" where
  "getUserProfile now ls =
     (let profileData = ls USER_PROFILE; lastSync = ls LAST_SYNC in
      if falsy_string profileData \<or> falsy_string lastSync then (JNull, ls)
      else case lastSync of
             None \<Rightarrow> (JNull, ls)
           | Some l \<Rightarrow>
               (let lastSyncTime = parseInt10 l in
                if isExpired now lastSyncTime then (JNull, clearUserProfile ls)
                else (safeJsonParse profileData JNull, ls)))"

definition saveSession :: "stringifier \<Rightarrow> int \<Rightarrow> jsval \<Rightarrow> localStorage \<Rightarrow> localStorage" where
  "saveSession stringify now session ls =
     (let sessionData = safeJsonStringify stringify session in
      if falsy_string sessionData then ls
      else case sessionData of
             None \<Rightarrow> ls
           | Some d \<Rightarrow> (ls(SESSION \<mapsto> d))(LAST_SYNC \<mapsto> toString now))"

definition getSession :: "int \<Rightarrow> localStorage \<Rightarrow> jsval \<times> localStorage" where
  "getSession now ls =
     (let sessionData = ls SESSION; lastSync = ls LAST_SYNC in
      if falsy_string sessionData \<or> falsy_string lastSync then (JNull, ls)
      else case lastSync of
             None \<Rightarrow> (JNull, ls)
           | Some l \<Rightarrow>
               (let lastSyncTime = parseInt10 l in
                if isExpired now lastSyncTime then (JNull, clearSession ls)
                else (safeJsonParse sessionData JNull, ls)))"

text \<open>
  \<open>hasValidStoredAuth\<close> reads the clock twice: \<open>now1\<close> inside its call of
  \<open>getUser\<close>, \<open>now2\<close> in its own expiry test.
\<close>

definition hasValidStoredAuth :: "int \<Rightarrow> int \<Rightarrow> localStorage \<Rightarrow> bool \<times> localStorage" where
  "hasValidStoredAuth now1 now2 ls =
     (case getUser now1 ls of
        (user, ls') \<Rightarrow>
          (let lastSync = ls' LAST_SYNC in
           if \<not> truthy user \<or> falsy_string lastSync then (False, ls')
           else case lastSync of
                  None \<Rightarrow> (False, ls')
                | Some l \<Rightarrow>
                    (let lastSyncTime = parseInt10 l in (\<not> isExpired now2 lastSyncTime, ls'))))"


section \<open>The platform's \<^verbatim>\<open>JSON.stringify\<close>\<close>




















section \<open>Trick generation (src/lib/claude.ts)\<close>

text \<open>
  A \<^verbatim>\<open>GeneratedTrick\<close> as it exists at run time. The interface declares strings
  and string arrays, but \<open>parseGeneratedTrick\<close> copies values out of parsed JSON
  without converting them, so each field holds a JavaScript value.
\<close>

record GeneratedTrick =
  title :: jsval
  description :: jsval
  instructions :: jsval
  difficulty :: jsval
  items :: jsval

text \<open>
  \<^verbatim>\<open>content.match(/\{[\s\S]*\}/)\<close>, the text of the match: it starts at the first
  opening brace and, the star being greedy, ends at the last closing brace after it.
  There is no match (\<open>None\<close>) when no closing brace follows the first opening one.
\<close>

definition jsonMatch :: "jsstring \<Rightarrow> jsstring option" where
  "jsonMatch content =
     (case dropWhile (\<lambda>c. c \<noteq> 123) content of
        [] \<Rightarrow> None
      | c # rest \<Rightarrow>
          (let body = rev (dropWhile (\<lambda>c. c \<noteq> 125) (rev rest)) in
           if body = [] then None else Some (c # body)))"

text \<open>\<^verbatim>\<open>a || b\<close>.\<close>

definition js_or :: "jsval \<Rightarrow> jsval \<Rightarrow> jsval" where
  "js_or a b = (if truthy a then a else b)"

text \<open>The body of the \<^verbatim>\<open>try\<close> block: the trick, or \<open>None\<close> when it throws
  (no match, a syntax error of \<^verbatim>\<open>JSON.parse\<close>, or a property read of
  \<^verbatim>\<open>null\<close>).\<close>

definition parseGeneratedTrick_try :: "jsstring \<Rightarrow> jsstring list \<Rightarrow> GeneratedTrick option" where
  "parseGeneratedTrick_try content requestedItems =
     (case jsonMatch content of
        None \<Rightarrow> None
      | Some m \<Rightarrow>
          (case JSON_parse m of
             None \<Rightarrow> None
           | Some parsed \<Rightarrow>
               (case (property parsed (js ''title''), property parsed (js ''description''),
                      property parsed (js ''instructions''), property parsed (js ''difficulty''),
                      property parsed (js ''items'')) of
                  (Some t, Some d, Some i, Some df, Some it) \<Rightarrow>
                    Some \<lparr>title = js_or t (JString (js ''Generated Magic Trick'')),
                          description = js_or d (JString (js ''A magical trick created just for you!'')),
                          instructions =
                            (if isArray i then i else JArray [JString (js ''Follow the magic!'')]),
                          difficulty =
                            (if df \<in> set [JString (js ''Easy''), JString (js ''Medium''),
                                           JString (js ''Hard'')]
                             then df else JString (js ''Easy'')),
                          items = (if isArray it then it else JArray (map JString requestedItems))\<rparr>
                | _ \<Rightarrow> None)))"

text \<open>The trick of the \<^verbatim>\<open>catch\<close> block.\<close>

definition fallbackTrick :: "jsstring list \<Rightarrow> GeneratedTrick" where
  "fallbackTrick requestedItems =
     \<lparr>title = JString (js ''AI Generated Magic Trick''),
      description = JString (js ''A magical trick created using artificial intelligence!''),
      instructions = JArray [JString (js ''Gather your items''),
                             JString (js ''Follow the magical steps''),
                             JString (js ''Practice the routine''),
                             JString (js ''Amaze your audience!'')],
      difficulty = JString (js ''Easy''),
      items = JArray (map JString requestedItems)\<rparr>"

definition parseGeneratedTrick :: "jsstring \<Rightarrow> jsstring list \<Rightarrow> GeneratedTrick" where
  "parseGeneratedTrick content requestedItems =
     (case parseGeneratedTrick_try content requestedItems of
        Some trick \<Rightarrow> trick
      | None \<Rightarrow> fallbackTrick requestedItems)"

text \<open>
  What the interface \<^verbatim>\<open>GeneratedTrick\<close> declares: strings, arrays of strings, and
  one of the three difficulty names.
\<close>

definition isStringValue :: "jsval \<Rightarrow> bool" where
  "isStringValue v = (case v of JString s \<Rightarrow> True | _ \<Rightarrow> False)"

definition isStringArray :: "jsval \<Rightarrow> bool" where
  "isStringArray v = (case v of JArray xs \<Rightarrow> list_all isStringValue xs | _ \<Rightarrow> False)"

definition well_typed_trick :: "GeneratedTrick \<Rightarrow> bool" where
  "well_typed_trick t =
     (isStringValue (title t) \<and> isStringValue (description t)
      \<and> isStringArray (instructions t)
      \<and> difficulty t \<in> set [JString (js ''Easy''), JString (js ''Medium''), JString (js ''Hard'')]
      \<and> isStringArray (items t))"

text \<open>
  \<open>generateMagicTrick\<close>. Its surroundings are parameters: the configured API key
  (\<^verbatim>\<open>undefined\<close> when the variable is not set), and the outcome of building the
  client and awaiting \<^verbatim>\<open>messages.create\<close>: a thrown value, or a message, given by
  the \<^verbatim>\<open>text\<close> of each of its content blocks (\<open>None\<close> for a block without one).
  The request's \<^verbatim>\<open>items\<close> are the only part of it the result depends on; the
  prompt is built from strings by concatenation and cannot throw.
\<close>

record TrickGenerationRequest =
  req_items :: "jsstring list"
  req_difficulty :: "jsstring option"
  req_additionalContext :: "jsstring option"

record TrickGenerationResponse =
  success :: bool
  trick :: "GeneratedTrick option"
  error :: "jsstring option"

type_synonym message = "jsstring option list"

text \<open>The body of the \<^verbatim>\<open>try\<close> block.\<close>

definition generateMagicTrick_try ::
  "message outcome \<Rightarrow> TrickGenerationRequest \<Rightarrow> TrickGenerationResponse outcome" where
  "generateMagicTrick_try api request =
     (case api of
        Throws e \<Rightarrow> Throws e
      | Returns msg \<Rightarrow>
          (let content = (case msg of [] \<Rightarrow> None | block # _ \<Rightarrow> block) in
           if falsy_string content then
             Throws (ErrorObject (js ''No content received from Claude API''))
           else case content of
                  None \<Rightarrow> Throws (ErrorObject (js ''No content received from Claude API''))
                | Some c \<Rightarrow>
                    Returns \<lparr>success = True,
                             trick = Some (parseGeneratedTrick c (req_items request)),
                             error = None\<rparr>))"

text \<open>
  The whole function: \<open>Returns\<close> is the value its promise resolves to, \<open>Throws\<close>
  would be an exception reaching the caller.
\<close>

definition generateMagicTrick ::
  "jsstring option \<Rightarrow> message outcome \<Rightarrow> TrickGenerationRequest
     \<Rightarrow> TrickGenerationResponse outcome" where
  "generateMagicTrick CLAUDE_API_KEY api request =
     (if falsy_string CLAUDE_API_KEY then
        Returns \<lparr>success = False, trick = None,
                 error = Some (js ''Claude API key not configured. Please add VITE_CLAUDE_API_KEY to your environment variables.'')\<rparr>
      else case generateMagicTrick_try api request of
             Returns r \<Rightarrow> Returns r
           | Throws e \<Rightarrow>
               Returns \<lparr>success = False, trick = None,
                        error = Some (case e of
                                        ErrorObject m \<Rightarrow> m
                                      | NonError \<Rightarrow> js ''Failed to generate magic trick'')\<rparr>)"


section \<open>Profile creation (src/contexts/AuthContext.tsx)\<close>

text \<open>\<^verbatim>\<open>s.includes(sub)\<close>: \<open>sub\<close> occurs in \<open>s\<close> as a contiguous run.\<close>

fun string_includes :: "jsstring \<Rightarrow> jsstring \<Rightarrow> bool" where
  "string_includes [] sub = (sub = [])"
| "string_includes (c # cs) sub = (take (length sub) (c # cs) = sub \<or> string_includes cs sub)"

text \<open>
  The authenticated user as \<open>createUserProfile\<close> reads it: the e-mail address
  (\<^verbatim>\<open>undefined\<close> when there is none) and \<^verbatim>\<open>user_metadata?.name\<close> and
  \<^verbatim>\<open>user_metadata?.bio\<close>, each \<^verbatim>\<open>undefined\<close> when absent.
\<close>

record auth_user =
  au_email :: "jsstring option"
  au_name :: jsval
  au_bio :: jsval

text \<open>A row of \<^verbatim>\<open>users\<close>, the type \<^verbatim>\<open>User\<close> of src/lib/supabase.ts.\<close>

record User =
  user_id :: jsstring
  user_name :: jsval
  user_email :: jsstring
  user_profile :: jsstring
  user_bio :: jsval
  created_at :: jsstring
  updated_at :: jsstring

text \<open>What \<^verbatim>\<open>supabase.auth.getUser()\<close> and the insert answer.\<close>

datatype auth_reply = AuthError | NoAuthUser | AuthUser auth_user

datatype insert_reply = InsertError jsstring jsstring | InsertOk User

text \<open>
  The surroundings of one call of \<open>createUserProfile\<close>: the outcome of the user
  lookup, the outcome of the insert (an error with its code and message, or the inserted
  row), and the two times \<^verbatim>\<open>new Date().toISOString()\<close> would give.
\<close>

record attempt =
  auth :: "auth_reply outcome"
  insert_result :: "insert_reply outcome"
  created_now :: jsstring
  updated_now :: jsstring

text \<open>
  What a call does, in order: it looks up the user, sends an insert (with the row's id,
  name, e-mail, picture and bio), starts a timer, sets the profile of the React state,
  saves a profile to the local cache (\<^verbatim>\<open>saveUserProfile\<close>), or ends with its
  promise rejected.
\<close>

datatype effect =
  AuthGetUser
| InsertUsers jsstring jsval jsstring jsstring jsval
| SetTimeout nat
| SetUserProfile User
| SaveUserProfile User
| Rejected

text \<open>
  \<^verbatim>\<open>authUser.user_metadata?.name || authUser.email?.split('@')[0] || 'User'\<close>
\<close>

definition profileName :: "auth_user \<Rightarrow> jsval" where
  "profileName au =
     js_or (js_or (au_name au)
                  (case au_email au of
                     None \<Rightarrow> JUndefined
                   | Some e \<Rightarrow> JString (takeWhile (\<lambda>c. c \<noteq> 64) e)))
           (JString (js ''User''))"

definition profileEmail :: "auth_user \<Rightarrow> jsstring" where
  "profileEmail au = (case au_email au of None \<Rightarrow> [] | Some e \<Rightarrow> e)"

definition profileBio :: "auth_user \<Rightarrow> jsval" where
  "profileBio au = js_or (au_bio au) (JString [])"

definition tempProfile :: "jsstring \<Rightarrow> auth_user \<Rightarrow> attempt \<Rightarrow> User" where
  "tempProfile userId au a =
     \<lparr>user_id = userId, user_name = profileName au, user_email = profileEmail au,
      user_profile = [], user_bio = profileBio au,
      created_at = created_now a, updated_at = updated_now a\<rparr>"

definition isPermissionError :: "jsstring \<Rightarrow> jsstring \<Rightarrow> bool" where
  "isPermissionError code message = (code = js ''42501'' \<or> string_includes message (js ''permission''))"

text \<open>
  \<open>createUserProfile\<close>: \<open>env k\<close> gives the surroundings of the call with
  \<^verbatim>\<open>retryCount\<close> \<open>k\<close>. The retry runs in a timer callback, two seconds after the
  call that started it; its effects follow that call's in the result. The
  \<^verbatim>\<open>catch\<close> block reads \<^verbatim>\<open>authUser\<close>, a constant declared inside the
  \<^verbatim>\<open>try\<close> block and not in scope outside it: evaluating it throws a
  \<^verbatim>\<open>ReferenceError\<close>, so a call whose \<^verbatim>\<open>try\<close> block throws ends rejected.
\<close>

function createUserProfile :: "(nat \<Rightarrow> attempt) \<Rightarrow> jsstring \<Rightarrow> nat \<Rightarrow> effect list" where
  "createUserProfile env userId retryCount =
     (case auth (env retryCount) of
        Throws e \<Rightarrow> [AuthGetUser, Rejected]
      | Returns AuthError \<Rightarrow> [AuthGetUser]
      | Returns NoAuthUser \<Rightarrow> [AuthGetUser]
      | Returns (AuthUser authUser) \<Rightarrow>
          AuthGetUser
          # InsertUsers userId (profileName authUser) (profileEmail authUser) []
              (profileBio authUser)
          # (case insert_result (env retryCount) of
               Throws e \<Rightarrow> [Rejected]
             | Returns (InsertOk data) \<Rightarrow> [SetUserProfile data, SaveUserProfile data]
             | Returns (InsertError code message) \<Rightarrow>
                 if isPermissionError code message \<and> retryCount < 2 then
                   SetTimeout 2000 # createUserProfile env userId (retryCount + 1)
                 else
                   [SetUserProfile (tempProfile userId authUser (env retryCount)),
                    SaveUserProfile (tempProfile userId authUser (env retryCount))]))"
  by pat_completeness auto
termination
  by (relation "measure (\<lambda>(env, userId, retryCount). 2 - retryCount)") auto

declare createUserProfile.simps [simp del]

text \<open>Readings of a list of effects.\<close>

fun isInsert :: "effect \<Rightarrow> bool" where
  "isInsert (InsertUsers i n e p b) = True"
| "isInsert _ = False"

fun isTimer :: "effect \<Rightarrow> bool" where
  "isTimer (SetTimeout n) = True"
| "isTimer _ = False"

fun isSetProfile :: "effect \<Rightarrow> bool" where
  "isSetProfile (SetUserProfile p) = True"
| "isSetProfile _ = False"

text \<open>The inserts and timers of a list of effects, in order: \<open>True\<close> for a timer.\<close>

definition insertsAndTimers :: "effect list \<Rightarrow> bool list" where
  "insertsAndTimers es = map isTimer (filter (\<lambda>e. isInsert e \<or> isTimer e) es)"

definition insertCount :: "effect list \<Rightarrow> nat" where
  "insertCount es = length (filter isInsert es)"

definition retryCountOf :: "effect list \<Rightarrow> nat" where
  "retryCountOf es = length (filter isTimer es)"

text \<open>The insert of the call with retry count \<open>k\<close> failed with a permission error.\<close>

definition permissionFailure :: "attempt \<Rightarrow> bool" where
  "permissionFailure a =
     (case (auth a, insert_result a) of
        (Returns (AuthUser u), Returns (InsertError code message)) \<Rightarrow>
          isPermissionError code message
      | _ \<Rightarrow> False)"

text \<open>The insert of the call was sent and failed (with any error).\<close>

definition insertFailure :: "attempt \<Rightarrow> bool" where
  "insertFailure a =
     (case (auth a, insert_result a) of
        (Returns (AuthUser u), Returns (InsertError code message)) \<Rightarrow> True
      | _ \<Rightarrow> False)"

text \<open>The authenticated user of a call whose lookup succeeded.\<close>

definition authUserOf :: "attempt \<Rightarrow> auth_user option" where
  "authUserOf a = (case auth a of Returns (AuthUser u) \<Rightarrow> Some u | _ \<Rightarrow> None)"


section \<open>Row-level security (the SQL setup script)\<close>

text \<open>
  The two tables and their policies, as the setup script creates them. \<open>auth.uid()\<close>
  is the caller's identity, \<^verbatim>\<open>NULL\<close> (\<open>None\<close>) for a caller who is not signed in.
\<close>

type_synonym uuid = jsstring

record users_row =
  users_id :: uuid
  users_name :: jsstring
  users_profile :: jsstring
  users_email :: jsstring
  users_bio :: jsstring

record magic_tricks_row =
  tricks_id :: uuid
  tricks_user_id :: uuid
  tricks_title :: jsstring
  tricks_description :: jsstring
  tricks_instructions :: "jsstring list"
  tricks_difficulty :: jsstring
  tricks_overall_rating :: rat

datatype sql_command = SELECT | INSERT | UPDATE | DELETE

text \<open>
  A policy: its name, the command it is for, and its expression (\<^verbatim>\<open>USING\<close>, or
  \<^verbatim>\<open>WITH CHECK\<close> for an insert) as a test of the caller's identity and a row. A
  comparison with \<^verbatim>\<open>NULL\<close> is not true, so \<^verbatim>\<open>auth.uid() = id\<close> holds only
  for a signed-in caller whose identity is the row's.
\<close>

record 'row policy =
  policy_name :: string
  policy_command :: sql_command
  policy_expr :: "uuid option \<Rightarrow> 'row \<Rightarrow> bool"

definition users_policies :: "users_row policy list" where
  "users_policies =
     [\<lparr>policy_name = ''Public profiles are viewable by everyone.'',
       policy_command = SELECT, policy_expr = (\<lambda>uid row. True)\<rparr>,
      \<lparr>policy_name = ''Users can insert their own profile.'',
       policy_command = INSERT, policy_expr = (\<lambda>uid row. uid = Some (users_id row))\<rparr>,
      \<lparr>policy_name = ''Users can update own profile.'',
       policy_command = UPDATE, policy_expr = (\<lambda>uid row. uid = Some (users_id row))\<rparr>]"

definition magic_tricks_policies :: "magic_tricks_row policy list" where
  "magic_tricks_policies =
     [\<lparr>policy_name = ''Magic tricks are viewable by everyone.'',
       policy_command = SELECT, policy_expr = (\<lambda>uid row. True)\<rparr>,
      \<lparr>policy_name = ''Users can insert their own magic tricks.'',
       policy_command = INSERT, policy_expr = (\<lambda>uid row. uid = Some (tricks_user_id row))\<rparr>,
      \<lparr>policy_name = ''Users can update their own magic tricks.'',
       policy_command = UPDATE, policy_expr = (\<lambda>uid row. uid = Some (tricks_user_id row))\<rparr>,
      \<lparr>policy_name = ''Users can delete their own magic tricks.'',
       policy_command = DELETE, policy_expr = (\<lambda>uid row. uid = Some (tricks_user_id row))\<rparr>]"

text \<open>
  How the database applies the policies of a table with row-level security enabled: a
  row passes for a command when the expression of at least one policy for that command
  holds of it; with no policy for the command, no row passes.
\<close>

definition passes :: "'row policy list \<Rightarrow> sql_command \<Rightarrow> uuid option \<Rightarrow> 'row \<Rightarrow> bool" where
  "passes policies command uid row =
     list_ex (\<lambda>p. policy_command p = command \<and> policy_expr p uid row) policies"

text \<open>
  Reading a row, inserting a new row, replacing an existing row by a new one, deleting a
  row. An update policy without \<^verbatim>\<open>WITH CHECK\<close> applies its \<^verbatim>\<open>USING\<close>
  expression to the existing row and to the new one.
\<close>

definition may_select :: "'row policy list \<Rightarrow> uuid option \<Rightarrow> 'row \<Rightarrow> bool" where
  "may_select policies uid row = passes policies SELECT uid row"

definition may_insert :: "'row policy list \<Rightarrow> uuid option \<Rightarrow> 'row \<Rightarrow> bool" where
  "may_insert policies uid new_row = passes policies INSERT uid new_row"

definition may_update :: "'row policy list \<Rightarrow> uuid option \<Rightarrow> 'row \<Rightarrow> 'row \<Rightarrow> bool" where
  "may_update policies uid old_row new_row =
     (passes policies UPDATE uid old_row \<and> passes policies UPDATE uid new_row)"

definition may_delete :: "'row policy list \<Rightarrow> uuid option \<Rightarrow> 'row \<Rightarrow> bool" where
  "may_delete policies uid row = passes policies DELETE uid row"


section \<open>Properties of file validation\<close>

lemma digits_nonempty: "digits n \<noteq> []"
  by (subst digits.simps) simp

lemma toString_nonempty: "toString n \<noteq> []"
  by (simp add: toString_def digits_nonempty)

lemma validateFile_valid:
  "valid (validateFile f a m) = (file_type f \<in> set a \<and> file_size f \<le> m)"
  by (auto simp: validateFile_def Let_def)

lemma validateFile_error:
  "(case val_error (validateFile f a m) of
      None \<Rightarrow> valid (validateFile f a m)
    | Some e \<Rightarrow> \<not> valid (validateFile f a m) \<and> e \<noteq> [])"
  by (simp add: validateFile_def Let_def js_def)

text \<open>
  C2. \<open>validateFile\<close> answers valid exactly for a file whose MIME type is in the
  allow-list and whose size does not exceed the byte limit; an invalid answer carries a
  non-empty error message and a valid one carries none. \<open>validateProfilePicture\<close>
  applies it with the four image types and 5 * 1024 * 1024 bytes, \<open>validateUserVideo\<close>
  with the four video types and 50 * 1024 * 1024 bytes.
\<close>

theorem C2_validateFile:
  "valid (validateFile f a m) = (file_type f \<in> set a \<and> file_size f \<le> m)
   \<and> (case val_error (validateFile f a m) of
         None \<Rightarrow> valid (validateFile f a m)
       | Some e \<Rightarrow> \<not> valid (validateFile f a m) \<and> e \<noteq> [])
   \<and> validateProfilePicture f =
       validateFile f [js ''image/jpeg'', js ''image/png'', js ''image/gif'', js ''image/webp'']
         (5 * 1024 * 1024)
   \<and> valid (validateProfilePicture f) =
       (file_type f \<in> {js ''image/jpeg'', js ''image/png'', js ''image/gif'', js ''image/webp''}
        \<and> file_size f \<le> 5242880)
   \<and> validateUserVideo f =
       validateFile f [js ''video/mp4'', js ''video/webm'', js ''video/quicktime'',
                       js ''video/x-msvideo''] (50 * 1024 * 1024)
   \<and> valid (validateUserVideo f) =
       (file_type f \<in> {js ''video/mp4'', js ''video/webm'', js ''video/quicktime'',
                        js ''video/x-msvideo''}
        \<and> file_size f \<le> 52428800)"
proof -
  have p: "valid (validateProfilePicture f) =
       (file_type f \<in> {js ''image/jpeg'', js ''image/png'', js ''image/gif'', js ''image/webp''}
        \<and> file_size f \<le> 5242880)"
    unfolding validateProfilePicture_def Let_def validateFile_valid by simp
  have v: "valid (validateUserVideo f) =
       (file_type f \<in> {js ''video/mp4'', js ''video/webm'', js ''video/quicktime'',
                        js ''video/x-msvideo''}
        \<and> file_size f \<le> 52428800)"
    unfolding validateUserVideo_def Let_def validateFile_valid by simp
  show ?thesis
    using validateFile_valid [of f a m] validateFile_error [of f a m] p v
    by (simp add: validateProfilePicture_def validateUserVideo_def Let_def)
qed

section \<open>Properties of the upload wrapper\<close>

lemma first_segment_prefix:
  "47 \<notin> set userId \<Longrightarrow> first_segment (userId @ js ''/'' @ rest) = userId"
  by (induction userId) (auto simp: first_segment_def js_def)

lemma uploadFile_requests:
  "uploaded_paths (snd (uploadFile store bucket path file userId)) = [userId @ js ''/'' @ path]"
  by (simp add: uploadFile_def Let_def split: outcome.splits upload_reply.splits)

lemma uploadFile_result:
  "up_path (fst (uploadFile store bucket path file userId)) =
     (if up_success (fst (uploadFile store bucket path file userId))
      then Some (userId @ js ''/'' @ path) else None)"
  by (simp add: uploadFile_def Let_def split: outcome.splits upload_reply.splits)

lemma uploadFile_success:
  "up_success (fst (uploadFile store bucket path file userId)) =
     (upload store bucket (userId @ js ''/'' @ path) file = Returns UploadOk)"
  by (simp add: uploadFile_def Let_def split: outcome.splits upload_reply.splits)

text \<open>
  C6, as amended. Every upload is sent to the path \<open>userId + "/" + filename\<close> and to
  no other, and a successful result returns that same path (a failed one returns none);
  this holds for \<open>uploadFile\<close> and, with the file names they build, for
  \<open>uploadProfilePicture\<close> and \<open>uploadUserVideo\<close>. The user id is the first segment
  of that path when it contains no slash. The wrapper does not check the user id: one
  that contains a slash is interpolated as it is, and then only its part before the first
  slash is the first segment.
\<close>

theorem C6_upload_path:
  "(let r = uploadFile store bucket path file userId in
      uploaded_paths (snd r) = [userId @ js ''/'' @ path]
      \<and> up_path (fst r) = (if up_success (fst r) then Some (userId @ js ''/'' @ path) else None))
   \<and> (\<exists>filename.
        let r = uploadProfilePicture store t file userId in
          uploaded_paths (snd r) = [userId @ js ''/'' @ filename]
          \<and> up_path (fst r) = (if up_success (fst r) then Some (userId @ js ''/'' @ filename) else None))
   \<and> (\<exists>filename.
        let r = uploadUserVideo store t file userId customName in
          uploaded_paths (snd r) = [userId @ js ''/'' @ filename]
          \<and> up_path (fst r) = (if up_success (fst r) then Some (userId @ js ''/'' @ filename) else None))
   \<and> (47 \<notin> set userId \<longrightarrow> (\<forall>filename. first_segment (userId @ js ''/'' @ filename) = userId))"
proof -
  have a: "let r = uploadFile store bucket path file userId in
      uploaded_paths (snd r) = [userId @ js ''/'' @ path]
      \<and> up_path (fst r) = (if up_success (fst r) then Some (userId @ js ''/'' @ path) else None)"
    unfolding Let_def using uploadFile_requests uploadFile_result by blast
  have b: "\<exists>filename.
        let r = uploadProfilePicture store t file userId in
          uploaded_paths (snd r) = [userId @ js ''/'' @ filename]
          \<and> up_path (fst r) = (if up_success (fst r) then Some (userId @ js ''/'' @ filename) else None)"
    unfolding Let_def uploadProfilePicture_def using uploadFile_requests uploadFile_result by blast
  have c: "\<exists>filename.
        let r = uploadUserVideo store t file userId customName in
          uploaded_paths (snd r) = [userId @ js ''/'' @ filename]
          \<and> up_path (fst r) = (if up_success (fst r) then Some (userId @ js ''/'' @ filename) else None)"
    unfolding Let_def uploadUserVideo_def using uploadFile_requests uploadFile_result by blast
  have d: "47 \<notin> set userId \<longrightarrow> (\<forall>filename. first_segment (userId @ js ''/'' @ filename) = userId)"
    using first_segment_prefix by blast
  from a b c d show ?thesis by blast
qed

text \<open>
  An instance: user \<open>u1\<close> uploads \<open>cat.png\<close> at time 1700000000000 to a store that
  accepts it, and the object is written to \<open>u1/profile_1700000000000.png\<close>.
\<close>

theorem C6_upload_path_witness:
  "47 \<notin> set (js ''u1'')
   \<and> first_segment (js ''u1'' @ js ''/'' @ js ''profile_1700000000000.png'') = js ''u1''
   \<and> uploadProfilePicture
        \<lparr>upload = (\<lambda>b p f. Returns UploadOk), publicUrl = (\<lambda>b p. js ''https://cdn/'' @ p)\<rparr>
        1700000000000
        \<lparr>file_name = js ''cat.png'', file_type = js ''image/png'', file_size = 1000\<rparr>
        (js ''u1'')
      = (\<lparr>up_success = True,
          up_url = Some (js ''https://cdn/u1/profile_1700000000000.png''),
          up_error = None,
          up_path = Some (js ''u1/profile_1700000000000.png'')\<rparr>,
         [UploadRequest (js ''profile_pictures'') (js ''u1/profile_1700000000000.png'')
            \<lparr>file_name = js ''cat.png'', file_type = js ''image/png'', file_size = 1000\<rparr>,
          PublicUrlRequest (js ''profile_pictures'') (js ''u1/profile_1700000000000.png'')])"
proof -
  have h: "47 \<notin> set (js ''u1'')" by (simp add: js_def)
  have s: "first_segment (js ''u1'' @ js ''/'' @ js ''profile_1700000000000.png'') = js ''u1''"
    using C6_upload_path [of "\<lparr>upload = (\<lambda>b p f. Returns UploadOk), publicUrl = (\<lambda>b p. js ''https://cdn/'' @ p)\<rparr>"
        "js ''profile_pictures''" "js ''profile_1700000000000.png''"
        "\<lparr>file_name = js ''cat.png'', file_type = js ''image/png'', file_size = 1000\<rparr>"
        "js ''u1''" 1700000000000 None] h
    by blast
  show ?thesis
    using h s
    by (simp add: uploadProfilePicture_def uploadFile_def fileExtension_def toString_def
        digits.simps Let_def js_def)
qed

text \<open>
  C6 as stated does not hold: for the user id \<open>a/b\<close> the object is written to
  \<open>a/b/p.png\<close>, whose first segment is \<open>a\<close>, not the user id.
\<close>

theorem C6_upload_path_counterexample:
  "uploadFile
      \<lparr>upload = (\<lambda>b p f. Returns UploadOk), publicUrl = (\<lambda>b p. js ''https://cdn/'' @ p)\<rparr>
      (js ''profile_pictures'') (js ''p.png'')
      \<lparr>file_name = js ''cat.png'', file_type = js ''image/png'', file_size = 1000\<rparr>
      (js ''a/b'')
     = (\<lparr>up_success = True, up_url = Some (js ''https://cdn/a/b/p.png''), up_error = None,
         up_path = Some (js ''a/b/p.png'')\<rparr>,
        [UploadRequest (js ''profile_pictures'') (js ''a/b/p.png'')
           \<lparr>file_name = js ''cat.png'', file_type = js ''image/png'', file_size = 1000\<rparr>,
         PublicUrlRequest (js ''profile_pictures'') (js ''a/b/p.png'')])
   \<and> first_segment (js ''a/b/p.png'') = js ''a''
   \<and> first_segment (js ''a/b/p.png'') \<noteq> js ''a/b''"
  by (simp add: uploadFile_def first_segment_def Let_def js_def)

section \<open>Properties of the session cache\<close>

text \<open>Reading back a written timestamp: \<^verbatim>\<open>parseInt(n.toString(), 10)\<close> is \<open>n\<close>.\<close>

lemma digits_all_digit: "\<forall>c \<in> set (digits n). isDigit c"
proof (induction n rule: digits.induct)
  case (1 n)
  show ?case
  proof (cases "n < 10")
    case True
    then show ?thesis by (subst digits.simps) (simp add: isDigit_def)
  next
    case False
    with 1 have "\<forall>c \<in> set (digits (n div 10)). isDigit c" by simp
    moreover have "isDigit (48 + n mod 10)" by (simp add: isDigit_def) 
    ultimately show ?thesis using False by (subst digits.simps) auto
  qed
qed

lemma digitsValue_snoc: "digitsValue (ds @ [d]) = 10 * digitsValue ds + (d - 48)"
  by (simp add: digitsValue_def)

lemma digitsValue_digits: "digitsValue (digits n) = n"
proof (induction n rule: digits.induct)
  case (1 n)
  show ?case
  proof (cases "n < 10")
    case True
    then show ?thesis by (subst digits.simps) (simp add: digitsValue_def)
  next
    case False
    with 1 have "digitsValue (digits (n div 10)) = n div 10" by simp
    then show ?thesis using False
      by (subst digits.simps) (simp add: digitsValue_snoc)
  qed
qed

lemma isDigit_not_space: "isDigit c \<Longrightarrow> \<not> isWhiteSpace c \<and> c \<noteq> 45 \<and> c \<noteq> 43"
  by (auto simp: isDigit_def isWhiteSpace_def)

lemma digits_hd: "\<exists>c cs. digits n = c # cs \<and> isDigit c"
proof -
  obtain c cs where e: "digits n = c # cs" using digits_nonempty [of n] by (cases "digits n") auto
  with digits_all_digit [of n] have "isDigit c" by simp
  with e show ?thesis by blast
qed

lemma takeWhile_digits: "takeWhile isDigit (digits n) = digits n"
  using digits_all_digit [of n] by (simp add: takeWhile_eq_all_conv)

lemma parseInt10_unsigned:
  assumes "isDigit c" and "\<forall>x \<in> set cs. isDigit x"
  shows "parseInt10 (c # cs) = Some (int (digitsValue (c # cs)))"
proof -
  have t: "takeWhile isDigit cs = cs" using assms(2) by (simp add: takeWhile_eq_all_conv)
  show ?thesis
    using isDigit_not_space [OF assms(1)] assms(1)
    by (simp add: parseInt10_def Let_def t del: takeWhile_eq_all_conv)
qed

lemma parseInt10_negative:
  assumes "ds \<noteq> []" and "\<forall>x \<in> set ds. isDigit x"
  shows "parseInt10 (45 # ds) = Some (- int (digitsValue ds))"
proof -
  have t: "takeWhile isDigit ds = ds" using assms(2) by (simp add: takeWhile_eq_all_conv)
  have w: "\<not> isWhiteSpace 45" by (simp add: isWhiteSpace_def)
  show ?thesis
    using w assms(1)
    by (simp add: parseInt10_def Let_def t del: takeWhile_eq_all_conv)
qed

lemma parseInt10_digits: "parseInt10 (digits n) = Some (int n)"
proof -
  obtain c cs where e: "digits n = c # cs" and d: "isDigit c" using digits_hd by blast
  have "\<forall>x \<in> set cs. isDigit x" using digits_all_digit [of n] e by simp
  from parseInt10_unsigned [OF d this] show ?thesis
    using digitsValue_digits [of n] e by simp
qed

lemma parseInt10_minus_digits: "parseInt10 (45 # digits n) = Some (- int n)"
  using parseInt10_negative [OF digits_nonempty digits_all_digit, of n]
  by (simp add: digitsValue_digits)

lemma parseInt10_toString: "parseInt10 (toString n) = Some n"
  by (simp add: toString_def parseInt10_digits parseInt10_minus_digits)

lemma storage_keys_distinct:
  "USER \<noteq> LAST_SYNC" "USER \<noteq> USER_PROFILE" "USER \<noteq> SESSION"
  "USER_PROFILE \<noteq> LAST_SYNC" "USER_PROFILE \<noteq> SESSION" "SESSION \<noteq> LAST_SYNC"
  "LAST_SYNC \<noteq> USER" "USER_PROFILE \<noteq> USER" "SESSION \<noteq> USER"
  "LAST_SYNC \<noteq> USER_PROFILE" "SESSION \<noteq> USER_PROFILE" "LAST_SYNC \<noteq> SESSION"
  by (simp_all add: USER_def LAST_SYNC_def USER_PROFILE_def SESSION_def js_def)

lemma isExpired_Some: "isExpired now (Some ts) = (24 * 60 * 60 * 1000 < now - ts)"
  by (simp add: isExpired_def)

lemma getUser_stored:
  assumes "ls USER = Some d" and "d \<noteq> []" and "ls LAST_SYNC = Some (toString ts)"
  shows "getUser now ls =
           (if 24 * 60 * 60 * 1000 < now - ts then (JNull, clearUser ls)
            else (safeJsonParse (Some d) JNull, ls))"
  using assms toString_nonempty [of ts]
  by (simp add: getUser_def Let_def falsy_string_def parseInt10_toString isExpired_def)

lemma getUserProfile_stored:
  assumes "ls USER_PROFILE = Some d" and "d \<noteq> []" and "ls LAST_SYNC = Some (toString ts)"
  shows "getUserProfile now ls =
           (if 24 * 60 * 60 * 1000 < now - ts then (JNull, clearUserProfile ls)
            else (safeJsonParse (Some d) JNull, ls))"
  using assms toString_nonempty [of ts]
  by (simp add: getUserProfile_def Let_def falsy_string_def parseInt10_toString isExpired_def)

lemma getSession_stored:
  assumes "ls SESSION = Some d" and "d \<noteq> []" and "ls LAST_SYNC = Some (toString ts)"
  shows "getSession now ls =
           (if 24 * 60 * 60 * 1000 < now - ts then (JNull, clearSession ls)
            else (safeJsonParse (Some d) JNull, ls))"
  using assms toString_nonempty [of ts]
  by (simp add: getSession_def Let_def falsy_string_def parseInt10_toString isExpired_def)

lemma getUser_absent:
  assumes "ls USER = None \<or> ls LAST_SYNC = None"
  shows "getUser now ls = (JNull, ls)"
  using assms by (auto simp: getUser_def Let_def falsy_string_def)

lemma hasValidStoredAuth_null:
  assumes "fst (getUser now1 ls) = JNull"
  shows "fst (hasValidStoredAuth now1 now2 ls) = False"
  using assms by (cases "getUser now1 ls") (simp add: hasValidStoredAuth_def Let_def)

lemma hasValidStoredAuth_stored:
  assumes "ls USER = Some d" and "d \<noteq> []" and "ls LAST_SYNC = Some (toString ts)"
    and "truthy (safeJsonParse (Some d) JNull)" and "now1 \<le> now2"
  shows "fst (hasValidStoredAuth now1 now2 ls) = (now2 - ts \<le> 24 * 60 * 60 * 1000)"
proof (cases "24 * 60 * 60 * 1000 < now1 - ts")
  case True
  then have "fst (getUser now1 ls) = JNull"
    using getUser_stored [OF assms(1-3)] by simp
  from hasValidStoredAuth_null [OF this] show ?thesis using True assms(5) by simp
next
  case False
  then have g: "getUser now1 ls = (safeJsonParse (Some d) JNull, ls)"
    using getUser_stored [OF assms(1-3)] by simp
  show ?thesis
    using assms(3,4) toString_nonempty [of ts]
    by (auto simp: hasValidStoredAuth_def g Let_def falsy_string_def parseInt10_toString
        isExpired_def)
qed

lemma hasValidStoredAuth_expired:
  assumes "ls LAST_SYNC = Some (toString ts)" and "24 * 60 * 60 * 1000 < now1 - ts"
  shows "fst (hasValidStoredAuth now1 now2 ls) = False"
proof -
  have "fst (getUser now1 ls) = JNull"
    using assms toString_nonempty [of ts]
    by (simp add: getUser_def Let_def parseInt10_toString isExpired_def)
  from hasValidStoredAuth_null [OF this] show ?thesis .
qed

text \<open>
  C3. The expiry test is true exactly when more than 24 * 60 * 60 * 1000 milliseconds
  separate the current time from the stored timestamp. With a user (or session) and a
  last-sync timestamp \<open>ts\<close> in the store, \<open>getUser\<close> and \<open>getSession\<close> take the
  expired branch (they return \<^verbatim>\<open>null\<close> and clear their entry) exactly when
  \<open>now - ts\<close> exceeds that bound, and at or before the bound they return the parsed entry
  and leave the store as it is; \<open>hasValidStoredAuth\<close>, for a stored user that parses to
  a truthy value and a clock that does not run backwards between its two readings, answers
  true exactly when its own reading of the clock is at or before the bound.
\<close>

theorem C3_session_cache_expiry:
  "isExpired now (Some ts) = (24 * 60 * 60 * 1000 < now - ts)
   \<and> (ls USER = Some d \<and> d \<noteq> [] \<and> ls LAST_SYNC = Some (toString ts) \<longrightarrow>
        getUser now ls =
          (if 24 * 60 * 60 * 1000 < now - ts then (JNull, clearUser ls)
           else (safeJsonParse (Some d) JNull, ls)))
   \<and> (ls SESSION = Some sd \<and> sd \<noteq> [] \<and> ls LAST_SYNC = Some (toString ts) \<longrightarrow>
        getSession now ls =
          (if 24 * 60 * 60 * 1000 < now - ts then (JNull, clearSession ls)
           else (safeJsonParse (Some sd) JNull, ls)))
   \<and> (ls USER = Some d \<and> d \<noteq> [] \<and> ls LAST_SYNC = Some (toString ts)
        \<and> truthy (safeJsonParse (Some d) JNull) \<and> now \<le> now2 \<longrightarrow>
        fst (hasValidStoredAuth now now2 ls) = (now2 - ts \<le> 24 * 60 * 60 * 1000))"
  using isExpired_Some [of now ts] getUser_stored [of ls d ts now]
    getSession_stored [of ls sd ts now] hasValidStoredAuth_stored [of ls d ts now now2]
  by blast

text \<open>An instance: a user stored at time 1000 is fresh 24 hours later to the millisecond and
  stale one millisecond after that.\<close>

lemma parse_u1:
  \<open>JSON_parse (js ''{"id":"u1"}'') = Some (JObject [(js ''id'', JString (js ''u1''))])\<close>
  by (simp add: JSON_parse_def js_def lex_start_def isDigit_def)

theorem C3_session_cache_expiry_witness:
  \<open>getUser 86401000 [USER \<mapsto> js ''{"id":"u1"}'', LAST_SYNC \<mapsto> toString 1000]
     = (JObject [(js ''id'', JString (js ''u1''))],
        [USER \<mapsto> js ''{"id":"u1"}'', LAST_SYNC \<mapsto> toString 1000])
   \<and> getUser 86401001 [USER \<mapsto> js ''{"id":"u1"}'', LAST_SYNC \<mapsto> toString 1000]
     = (JNull, clearUser [USER \<mapsto> js ''{"id":"u1"}'', LAST_SYNC \<mapsto> toString 1000])
   \<and> fst (hasValidStoredAuth 86401000 86401000
             [USER \<mapsto> js ''{"id":"u1"}'', LAST_SYNC \<mapsto> toString 1000]) = True
   \<and> fst (hasValidStoredAuth 86401000 86401001
             [USER \<mapsto> js ''{"id":"u1"}'', LAST_SYNC \<mapsto> toString 1000]) = False\<close>
proof -
  let ?ls = \<open>[USER \<mapsto> js ''{"id":"u1"}'', LAST_SYNC \<mapsto> toString 1000]\<close>
  let ?d = \<open>js ''{"id":"u1"}''\<close>
  have k: "?ls USER = Some ?d" "?d \<noteq> []" "?ls LAST_SYNC = Some (toString 1000)"
    by (simp_all add: storage_keys_distinct js_def)
  have p: "safeJsonParse (Some ?d) JNull = JObject [(js ''id'', JString (js ''u1''))]"
    using k(2) by (simp add: safeJsonParse_def falsy_string_def parse_u1)
  have t: "truthy (safeJsonParse (Some ?d) JNull)" by (simp add: p)
  show ?thesis
    using C3_session_cache_expiry [of 86401000 1000 ?ls ?d "[]" 86401000]
      C3_session_cache_expiry [of 86401000 1000 ?ls ?d "[]" 86401001]
      C3_session_cache_expiry [of 86401001 1000 ?ls ?d "[]" 86401001]
      k t
    by (simp add: p)
qed

section \<open>\<^verbatim>\<open>JSON.parse\<close> after \<^verbatim>\<open>JSON.stringify\<close>\<close>



















































lemma clearUser_apply:
  "clearUser ls k = (if k = USER \<or> k = LAST_SYNC then None else ls k)"
  by (simp add: clearUser_def)

text \<open>
  C10. A read of an entry whose last-sync timestamp is more than 24 hours old returns
  \<^verbatim>\<open>null\<close> and removes the entry: \<open>getUser\<close> removes the stored user and the
  last-sync key, \<open>getUserProfile\<close> the stored profile, \<open>getSession\<close> the stored
  session; every other key keeps its value. After such a read by \<open>getUser\<close>,
  \<open>hasValidStoredAuth\<close> answers false whenever it is called; after one by
  \<open>getUserProfile\<close> or \<open>getSession\<close> (which leave the old timestamp in place) it
  answers false when called at the time of the read or later.
\<close>

theorem C10_expired_read_clears:
  "(ls USER = Some d \<and> d \<noteq> [] \<and> ls LAST_SYNC = Some (toString ts)
      \<and> 24 * 60 * 60 * 1000 < now - ts \<longrightarrow>
      (let r = getUser now ls in
         fst r = JNull \<and> snd r USER = None \<and> snd r LAST_SYNC = None
         \<and> (\<forall>k. k \<noteq> USER \<and> k \<noteq> LAST_SYNC \<longrightarrow> snd r k = ls k)
         \<and> fst (hasValidStoredAuth t1 t2 (snd r)) = False))
   \<and> (ls USER_PROFILE = Some d \<and> d \<noteq> [] \<and> ls LAST_SYNC = Some (toString ts)
      \<and> 24 * 60 * 60 * 1000 < now - ts \<longrightarrow>
      (let r = getUserProfile now ls in
         fst r = JNull \<and> snd r USER_PROFILE = None
         \<and> (\<forall>k. k \<noteq> USER_PROFILE \<longrightarrow> snd r k = ls k)
         \<and> (now \<le> t1 \<longrightarrow> fst (hasValidStoredAuth t1 t2 (snd r)) = False)))
   \<and> (ls SESSION = Some d \<and> d \<noteq> [] \<and> ls LAST_SYNC = Some (toString ts)
      \<and> 24 * 60 * 60 * 1000 < now - ts \<longrightarrow>
      (let r = getSession now ls in
         fst r = JNull \<and> snd r SESSION = None
         \<and> (\<forall>k. k \<noteq> SESSION \<longrightarrow> snd r k = ls k)
         \<and> (now \<le> t1 \<longrightarrow> fst (hasValidStoredAuth t1 t2 (snd r)) = False)))"
proof -
  have a: "let r = getUser now ls in
         fst r = JNull \<and> snd r USER = None \<and> snd r LAST_SYNC = None
         \<and> (\<forall>k. k \<noteq> USER \<and> k \<noteq> LAST_SYNC \<longrightarrow> snd r k = ls k)
         \<and> fst (hasValidStoredAuth t1 t2 (snd r)) = False"
    if h: "ls USER = Some d" "d \<noteq> []" "ls LAST_SYNC = Some (toString ts)"
      "24 * 60 * 60 * 1000 < now - ts"
  proof -
    have g: "getUser now ls = (JNull, clearUser ls)"
      using getUser_stored [OF h(1-3), of now] h(4) by simp
    have "getUser t1 (clearUser ls) = (JNull, clearUser ls)"
      using getUser_absent [of "clearUser ls" t1] by (simp add: clearUser_apply)
    then have "fst (hasValidStoredAuth t1 t2 (clearUser ls)) = False"
      using hasValidStoredAuth_null [of t1 "clearUser ls" t2] by simp
    then show ?thesis by (simp add: g Let_def clearUser_apply)
  qed
  have b: "let r = getUserProfile now ls in
         fst r = JNull \<and> snd r USER_PROFILE = None
         \<and> (\<forall>k. k \<noteq> USER_PROFILE \<longrightarrow> snd r k = ls k)
         \<and> (now \<le> t1 \<longrightarrow> fst (hasValidStoredAuth t1 t2 (snd r)) = False)"
    if h: "ls USER_PROFILE = Some d" "d \<noteq> []" "ls LAST_SYNC = Some (toString ts)"
      "24 * 60 * 60 * 1000 < now - ts"
  proof -
    have g: "getUserProfile now ls = (JNull, clearUserProfile ls)"
      using getUserProfile_stored [OF h(1-3), of now] h(4) by simp
    have l: "clearUserProfile ls LAST_SYNC = Some (toString ts)"
      using h(3) by (simp add: clearUserProfile_def storage_keys_distinct)
    have "fst (hasValidStoredAuth t1 t2 (clearUserProfile ls)) = False" if "now \<le> t1"
      using hasValidStoredAuth_expired [of "clearUserProfile ls" ts t1 t2] l h(4) that by simp
    then show ?thesis by (simp add: g Let_def clearUserProfile_def)
  qed
  have c: "let r = getSession now ls in
         fst r = JNull \<and> snd r SESSION = None
         \<and> (\<forall>k. k \<noteq> SESSION \<longrightarrow> snd r k = ls k)
         \<and> (now \<le> t1 \<longrightarrow> fst (hasValidStoredAuth t1 t2 (snd r)) = False)"
    if h: "ls SESSION = Some d" "d \<noteq> []" "ls LAST_SYNC = Some (toString ts)"
      "24 * 60 * 60 * 1000 < now - ts"
  proof -
    have g: "getSession now ls = (JNull, clearSession ls)"
      using getSession_stored [OF h(1-3), of now] h(4) by simp
    have l: "clearSession ls LAST_SYNC = Some (toString ts)"
      using h(3) by (simp add: clearSession_def storage_keys_distinct)
    have "fst (hasValidStoredAuth t1 t2 (clearSession ls)) = False" if "now \<le> t1"
      using hasValidStoredAuth_expired [of "clearSession ls" ts t1 t2] l h(4) that by simp
    then show ?thesis by (simp add: g Let_def clearSession_def)
  qed
  from a b c show ?thesis by blast
qed

text \<open>
  An instance: a store holding a user, a profile and a session written at time 1000, read
  at time 86401001.
\<close>

theorem C10_expired_read_clears_witness:
  \<open>fst (getUser 86401001
      [USER \<mapsto> js ''{"id":"u1"}'', USER_PROFILE \<mapsto> js ''{"name":"A"}'',
       SESSION \<mapsto> js ''{"access_token":"t"}'', LAST_SYNC \<mapsto> toString 1000]) = JNull
   \<and> snd (getUser 86401001
      [USER \<mapsto> js ''{"id":"u1"}'', USER_PROFILE \<mapsto> js ''{"name":"A"}'',
       SESSION \<mapsto> js ''{"access_token":"t"}'', LAST_SYNC \<mapsto> toString 1000]) USER = None
   \<and> snd (getUser 86401001
      [USER \<mapsto> js ''{"id":"u1"}'', USER_PROFILE \<mapsto> js ''{"name":"A"}'',
       SESSION \<mapsto> js ''{"access_token":"t"}'', LAST_SYNC \<mapsto> toString 1000]) LAST_SYNC = None
   \<and> snd (getUser 86401001
      [USER \<mapsto> js ''{"id":"u1"}'', USER_PROFILE \<mapsto> js ''{"name":"A"}'',
       SESSION \<mapsto> js ''{"access_token":"t"}'', LAST_SYNC \<mapsto> toString 1000]) SESSION
     = Some (js ''{"access_token":"t"}'')
   \<and> fst (hasValidStoredAuth 86401001 86401002
        (snd (getUser 86401001
          [USER \<mapsto> js ''{"id":"u1"}'', USER_PROFILE \<mapsto> js ''{"name":"A"}'',
           SESSION \<mapsto> js ''{"access_token":"t"}'', LAST_SYNC \<mapsto> toString 1000])))
     = False\<close>
proof -
  let ?ls = \<open>[USER \<mapsto> js ''{"id":"u1"}'', USER_PROFILE \<mapsto> js ''{"name":"A"}'',
       SESSION \<mapsto> js ''{"access_token":"t"}'', LAST_SYNC \<mapsto> toString 1000]\<close>
  have k: \<open>?ls USER = Some (js ''{"id":"u1"}'')\<close> \<open>js ''{"id":"u1"}'' \<noteq> []\<close>
    \<open>?ls LAST_SYNC = Some (toString 1000)\<close>
    \<open>?ls SESSION = Some (js ''{"access_token":"t"}'')\<close>
    by (simp_all add: storage_keys_distinct js_def)
  have e: "(24 * 60 * 60 * 1000 :: int) < 86401001 - 1000" by simp
  have r: "let r = getUser 86401001 ?ls in
         fst r = JNull \<and> snd r USER = None \<and> snd r LAST_SYNC = None
         \<and> (\<forall>k. k \<noteq> USER \<and> k \<noteq> LAST_SYNC \<longrightarrow> snd r k = ?ls k)
         \<and> fst (hasValidStoredAuth 86401001 86401002 (snd r)) = False"
    using C10_expired_read_clears [of ?ls \<open>js ''{"id":"u1"}''\<close> 1000 86401001 86401001 86401002]
      k(1-3) e by blast
  then have "snd (getUser 86401001 ?ls) SESSION = ?ls SESSION"
    unfolding Let_def using storage_keys_distinct by blast
  with r k(4) show ?thesis unfolding Let_def by simp
qed

section \<open>Properties of the reply parser\<close>

text \<open>The pattern: where it matches and what it matches.\<close>

lemma dropWhile_first:
  "a \<notin> set pre \<Longrightarrow> dropWhile (\<lambda>c. c \<noteq> a) (pre @ a # xs) = a # xs"
  by (induction pre) auto

lemma jsonMatch_found:
  assumes "123 \<notin> set pre" and "125 \<notin> set post"
  shows "jsonMatch (pre @ 123 # mid @ 125 # post) = Some (123 # mid @ [125])"
proof -
  have a: "dropWhile (\<lambda>c. c \<noteq> 123) (pre @ 123 # mid @ 125 # post) = 123 # mid @ 125 # post"
    using assms(1) by (rule dropWhile_first)
  have "dropWhile (\<lambda>c. c \<noteq> 125) (rev post @ 125 # rev mid) = 125 # rev mid"
    using assms(2) by (intro dropWhile_first) simp
  then have b: "rev (dropWhile (\<lambda>c. c \<noteq> 125) (rev (mid @ 125 # post))) = mid @ [125]"
    by simp
  show ?thesis by (simp only: jsonMatch_def a list.case b Let_def) simp
qed

lemma dropWhile_hd:
  "dropWhile (\<lambda>c. c \<noteq> a) xs = c # rest \<Longrightarrow> c = a \<and> xs = takeWhile (\<lambda>c. c \<noteq> a) xs @ a # rest"
proof -
  assume d: "dropWhile (\<lambda>c. c \<noteq> a) xs = c # rest"
  then have "dropWhile (\<lambda>c. c \<noteq> a) xs \<noteq> []" by simp
  from hd_dropWhile [OF this] have c: "c = a" by (simp add: d)
  have "takeWhile (\<lambda>c. c \<noteq> a) xs @ dropWhile (\<lambda>c. c \<noteq> a) xs = xs"
    by (rule takeWhile_dropWhile_id)
  then have "xs = takeWhile (\<lambda>c. c \<noteq> a) xs @ a # rest" by (simp add: d c)
  with c show ?thesis by simp
qed

lemma jsonMatch_Some:
  assumes "jsonMatch content = Some m"
  shows "\<exists>pre mid post. content = pre @ 123 # mid @ 125 # post \<and> 123 \<notin> set pre
           \<and> 125 \<notin> set post \<and> m = 123 # mid @ [125]"
proof -
  from assms obtain c rest where d: "dropWhile (\<lambda>c. c \<noteq> 123) content = c # rest"
    by (auto simp: jsonMatch_def split: list.splits)
  let ?pre = "takeWhile (\<lambda>c. c \<noteq> 123) content"
  from dropWhile_hd [OF d] have c: "c = 123" and e: "content = ?pre @ 123 # rest" by auto
  have p: "123 \<notin> set ?pre" by (auto dest: set_takeWhileD)
  let ?r = "dropWhile (\<lambda>c. c \<noteq> 125) (rev rest)"
  from assms d have n: "?r \<noteq> []" and m: "m = c # rev ?r"
    by (auto simp: jsonMatch_def Let_def split: if_splits)
  then obtain x xs where x: "?r = x # xs" by (cases ?r) auto
  from dropWhile_hd [OF x] have x125: "x = 125"
    and rr: "rev rest = takeWhile (\<lambda>c. c \<noteq> 125) (rev rest) @ 125 # xs" by auto
  let ?post = "rev (takeWhile (\<lambda>c. c \<noteq> 125) (rev rest))"
  have "rev (rev rest) = rev (takeWhile (\<lambda>c. c \<noteq> 125) (rev rest) @ 125 # xs)"
    using rr by simp
  then have r: "rest = rev xs @ 125 # ?post" by simp
  have q: "125 \<notin> set ?post" by (auto dest: set_takeWhileD)
  have "content = ?pre @ 123 # rev xs @ 125 # ?post" using e r by simp
  moreover have "m = 123 # rev xs @ [125]" using m c x x125 by simp
  ultimately show ?thesis using p q by blast
qed

lemma jsonMatch_None:
  "(jsonMatch content = None) = (\<nexists>pre mid post. content = pre @ 123 # mid @ 125 # post)"
proof
  assume n: "jsonMatch content = None"
  show "\<nexists>pre mid post. content = pre @ 123 # mid @ 125 # post"
  proof
    assume "\<exists>pre mid post. content = pre @ 123 # mid @ 125 # post"
    then obtain pre mid post where c: "content = pre @ 123 # mid @ 125 # post" by blast
    let ?P = "\<lambda>c. c \<noteq> (123::nat)"
    have "\<exists>rest. dropWhile ?P content = 123 # rest \<and> 125 \<in> set rest"
    proof (cases "\<forall>x \<in> set pre. ?P x")
      case True
      then have "dropWhile ?P content = 123 # mid @ 125 # post"
        unfolding c by (simp add: dropWhile_append)
      then show ?thesis by simp
    next
      case False
      then have d: "dropWhile ?P content = dropWhile ?P pre @ 123 # mid @ 125 # post"
        unfolding c by (auto simp: dropWhile_append)
      from False have "dropWhile ?P pre \<noteq> []" by auto
      then obtain y ys where y: "dropWhile ?P pre = y # ys" by (cases "dropWhile ?P pre") auto
      from dropWhile_hd [OF y] have "y = 123" by simp
      with d y show ?thesis by simp
    qed
    then obtain rest where d: "dropWhile ?P content = 123 # rest" and m: "125 \<in> set rest"
      by blast
    from m have "dropWhile (\<lambda>c. c \<noteq> 125) (rev rest) \<noteq> []" by auto
    with d have "jsonMatch content \<noteq> None" by (simp add: jsonMatch_def Let_def)
    with n show False by simp
  qed
next
  assume a: "\<nexists>pre mid post. content = pre @ 123 # mid @ 125 # post"
  show "jsonMatch content = None"
  proof (rule ccontr)
    assume "jsonMatch content \<noteq> None"
    then obtain m where "jsonMatch content = Some m" by auto
    from jsonMatch_Some [OF this] a show False by blast
  qed
qed

text \<open>A text that starts with an opening brace parses to an object or not at all.\<close>

lemma need_value_outer:
  "need_value stack t = Some (m', stack') \<Longrightarrow> stack \<noteq> [] \<Longrightarrow> stack' = stack"
  by (cases t) auto

lemma parse_step_outer:
  assumes "parse_step m stack t = Some (m', stack')" and "outer_object m stack"
  shows "outer_object m' stack'"
proof (cases m)
  case NeedValue
  with assms show ?thesis
    by (cases t) (auto simp: outer_object_def split: if_splits)
next
  case ArrayOpen
  with assms show ?thesis
    by (cases t) (auto simp: outer_object_def split: if_splits)
next
  case ObjectOpen
  with assms show ?thesis
    by (auto simp: outer_object_def isObject_def split: if_splits token.splits jsval.splits)
next
  case (NeedKey ms)
  with assms show ?thesis
    by (auto simp: outer_object_def split: if_splits token.splits jsval.splits)
next
  case (NeedColon ms k)
  with assms show ?thesis
    by (auto simp: outer_object_def split: if_splits)
next
  case (AfterValue v)
  show ?thesis
  proof (cases stack)
    case Nil
    with assms AfterValue show ?thesis by simp
  next
    case (Cons f fs)
    with assms AfterValue show ?thesis
      by (cases f)
        (auto simp: outer_object_def isObject_def split: if_splits token.splits)
  qed
qed

lemma parse_run_outer:
  "parse_run m stack ts = Some v \<Longrightarrow> outer_object m stack \<Longrightarrow> isObject v"
proof (induction ts arbitrary: m stack)
  case Nil
  then show ?case
    by (auto simp: outer_object_def split: mode.splits list.splits if_splits)
next
  case (Cons t ts)
  from Cons.prems(1) obtain m' stack' where
    s: "parse_step m stack t = Some (m', stack')" and r: "parse_run m' stack' ts = Some v"
    by (auto split: option.splits)
  from Cons.IH [OF r parse_step_outer [OF s Cons.prems(2)]] show ?case .
qed

lemma JSON_parse_object:
  assumes "JSON_parse (123 # rest) = Some v"
  shows "\<exists>ms. v = JObject ms"
proof -
  from assms obtain ts where l: "lex_run LStart (123 # rest) = Some ts"
    and p: "parse_run NeedValue [] ts = Some v"
    by (auto simp: JSON_parse_def split: option.splits)
  from l obtain ts' where t: "ts = LBrace # ts'"
    by (auto simp: lex_start_def split: option.splits)
  from p have "parse_run ObjectOpen [] ts' = Some v" by (simp add: t)
  from parse_run_outer [OF this] have "isObject v" by (simp add: outer_object_def)
  then show ?thesis by (cases v) (auto simp: isObject_def)
qed

lemma truthy_js_or: "truthy b \<Longrightarrow> truthy (js_or a b)"
  by (simp add: js_or_def)

lemma truthy_defined: "truthy v \<Longrightarrow> v \<noteq> JUndefined"
  by auto

lemma isArray_defined: "isArray v \<Longrightarrow> v \<noteq> JUndefined"
  by (auto simp: isArray_def)

text \<open>The trick built from a parsed object, field by field.\<close>

lemma parseGeneratedTrick_try_object:
  assumes "jsonMatch content = Some m" and "JSON_parse m = Some (JObject ms)"
  shows "parseGeneratedTrick_try content req =
     Some \<lparr>title = js_or (member ms (js ''title'')) (JString (js ''Generated Magic Trick'')),
           description = js_or (member ms (js ''description''))
                           (JString (js ''A magical trick created just for you!'')),
           instructions =
             (if isArray (member ms (js ''instructions'')) then member ms (js ''instructions'')
              else JArray [JString (js ''Follow the magic!'')]),
           difficulty =
             (if member ms (js ''difficulty'')
                   \<in> {JString (js ''Easy''), JString (js ''Medium''), JString (js ''Hard'')}
              then member ms (js ''difficulty'') else JString (js ''Easy'')),
           items = (if isArray (member ms (js ''items'')) then member ms (js ''items'')
                    else JArray (map JString req))\<rparr>"
  using assms by (simp add: parseGeneratedTrick_try_def)

lemma parseGeneratedTrick_cases:
  "parseGeneratedTrick content req = fallbackTrick req
   \<or> (\<exists>m ms. jsonMatch content = Some m \<and> JSON_parse m = Some (JObject ms)
        \<and> parseGeneratedTrick_try content req = Some (parseGeneratedTrick content req))"
proof (cases "jsonMatch content")
  case None
  then show ?thesis by (simp add: parseGeneratedTrick_def parseGeneratedTrick_try_def)
next
  case (Some m)
  show ?thesis
  proof (cases "JSON_parse m")
    case None
    with Some show ?thesis by (simp add: parseGeneratedTrick_def parseGeneratedTrick_try_def)
  next
    case (Some v)
    from jsonMatch_Some [OF \<open>jsonMatch content = Some m\<close>] obtain mid where "m = 123 # mid @ [125]"
      by blast
    with Some JSON_parse_object obtain ms where v: "v = JObject ms" by blast
    from parseGeneratedTrick_try_object [OF \<open>jsonMatch content = Some m\<close> Some [unfolded v]]
    show ?thesis using \<open>jsonMatch content = Some m\<close> Some v
      by (auto simp: parseGeneratedTrick_def)
  qed
qed

lemma parseGeneratedTrick_no_match:
  "jsonMatch content = None \<Longrightarrow> parseGeneratedTrick content req = fallbackTrick req"
  by (simp add: parseGeneratedTrick_def parseGeneratedTrick_try_def)

lemma parseGeneratedTrick_syntax_error:
  "jsonMatch content = Some m \<Longrightarrow> JSON_parse m = None
     \<Longrightarrow> parseGeneratedTrick content req = fallbackTrick req"
  by (simp add: parseGeneratedTrick_def parseGeneratedTrick_try_def)

text \<open>
  C1, as amended. \<open>parseGeneratedTrick\<close> returns the fallback trick when the reply has
  no opening brace with a closing brace after it, and when the text from the first opening
  brace to the last closing brace is not valid JSON. When that text is valid JSON (so for
  a JSON object embedded in prose that has no opening brace before it and no closing brace
  after it), the text parses to an object and the result is built from it field by field:
  \<open>title\<close> and \<open>description\<close> are the parsed values when these are truthy and the
  fixed default texts otherwise, \<open>instructions\<close> is the parsed value when it is an
  array and \<open>['Follow the magic!']\<close> otherwise, \<open>difficulty\<close> is the parsed value
  when it is one of the three names and \<open>'Easy'\<close> otherwise, \<open>items\<close> is the parsed
  value when it is an array and the requested items otherwise. A field of the wrong type
  is so replaced on its own (or, for a truthy \<open>title\<close> or \<open>description\<close>, kept);
  it does not make the result the fallback trick.
\<close>

theorem C1_parseGeneratedTrick_amended:
  "((\<nexists>pre mid post. content = pre @ 123 # mid @ 125 # post) \<longrightarrow>
      parseGeneratedTrick content req = fallbackTrick req)
   \<and> (\<forall>pre mid post.
        content = pre @ 123 # mid @ 125 # post \<and> 123 \<notin> set pre \<and> 125 \<notin> set post \<longrightarrow>
        (case JSON_parse (123 # mid @ [125]) of
           None \<Rightarrow> parseGeneratedTrick content req = fallbackTrick req
         | Some parsed \<Rightarrow>
             \<exists>ms. parsed = JObject ms
               \<and> parseGeneratedTrick content req =
                   \<lparr>title = js_or (member ms (js ''title''))
                              (JString (js ''Generated Magic Trick'')),
                    description = js_or (member ms (js ''description''))
                                    (JString (js ''A magical trick created just for you!'')),
                    instructions =
                      (if isArray (member ms (js ''instructions''))
                       then member ms (js ''instructions'')
                       else JArray [JString (js ''Follow the magic!'')]),
                    difficulty =
                      (if member ms (js ''difficulty'')
                            \<in> {JString (js ''Easy''), JString (js ''Medium''),
                               JString (js ''Hard'')}
                       then member ms (js ''difficulty'') else JString (js ''Easy'')),
                    items = (if isArray (member ms (js ''items'')) then member ms (js ''items'')
                             else JArray (map JString req))\<rparr>))"
proof (intro conjI impI allI)
  assume "\<nexists>pre mid post. content = pre @ 123 # mid @ 125 # post"
  then have "jsonMatch content = None" using jsonMatch_None [of content] by blast
  then show "parseGeneratedTrick content req = fallbackTrick req"
    by (rule parseGeneratedTrick_no_match)
next
  fix pre mid post
  assume h: "content = pre @ 123 # mid @ 125 # post \<and> 123 \<notin> set pre \<and> 125 \<notin> set post"
  then have m: "jsonMatch content = Some (123 # mid @ [125])"
    using jsonMatch_found [of pre post mid] by simp
  show "case JSON_parse (123 # mid @ [125]) of
           None \<Rightarrow> parseGeneratedTrick content req = fallbackTrick req
         | Some parsed \<Rightarrow>
             \<exists>ms. parsed = JObject ms
               \<and> parseGeneratedTrick content req =
                   \<lparr>title = js_or (member ms (js ''title''))
                              (JString (js ''Generated Magic Trick'')),
                    description = js_or (member ms (js ''description''))
                                    (JString (js ''A magical trick created just for you!'')),
                    instructions =
                      (if isArray (member ms (js ''instructions''))
                       then member ms (js ''instructions'')
                       else JArray [JString (js ''Follow the magic!'')]),
                    difficulty =
                      (if member ms (js ''difficulty'')
                            \<in> {JString (js ''Easy''), JString (js ''Medium''),
                               JString (js ''Hard'')}
                       then member ms (js ''difficulty'') else JString (js ''Easy'')),
                    items = (if isArray (member ms (js ''items'')) then member ms (js ''items'')
                             else JArray (map JString req))\<rparr>"
  proof (cases "JSON_parse (123 # mid @ [125])")
    case None
    with parseGeneratedTrick_syntax_error [OF m] show ?thesis by simp
  next
    case (Some v)
    with JSON_parse_object obtain ms where v: "v = JObject ms" by blast
    from parseGeneratedTrick_try_object [OF m Some [unfolded v], of req]
    show ?thesis using Some v by (simp add: parseGeneratedTrick_def)
  qed
qed

text \<open>The definitions that evaluating \<open>JSON_parse\<close> on a given text unfolds.\<close>

lemmas json_eval = JSON_parse_def js_def lex_start_def isDigit_def num_end_def num_value_def
  new_num_def hexValue_def

text \<open>
  An instance: a reply with the object between two sentences, and a reply with no brace
  at all.
\<close>

theorem C1_parseGeneratedTrick_amended_witness:
  \<open>parseGeneratedTrick (js ''Here it is: {"title":"Coin","items":["coin"]} Enjoy!'') [js ''cup'']
     = \<lparr>title = JString (js ''Coin''),
        description = JString (js ''A magical trick created just for you!''),
        instructions = JArray [JString (js ''Follow the magic!'')],
        difficulty = JString (js ''Easy''),
        items = JArray [JString (js ''coin'')]\<rparr>
   \<and> parseGeneratedTrick (js ''Sorry, no trick today.'') [js ''cup''] = fallbackTrick [js ''cup'']\<close>
proof -
  let ?pre = \<open>js ''Here it is: ''\<close>
  let ?mid = \<open>js ''"title":"Coin","items":["coin"]''\<close>
  let ?post = \<open>js '' Enjoy!''\<close>
  let ?content = \<open>js ''Here it is: {"title":"Coin","items":["coin"]} Enjoy!''\<close>
  have c: "?content = ?pre @ 123 # ?mid @ 125 # ?post \<and> 123 \<notin> set ?pre \<and> 125 \<notin> set ?post"
    by (simp add: js_def)
  have p: \<open>JSON_parse (123 # ?mid @ [125])
    = Some (JObject [(js ''title'', JString (js ''Coin'')),
                     (js ''items'', JArray [JString (js ''coin'')])])\<close>
    by (simp add: json_eval)
  have n: \<open>\<nexists>pre mid post. js ''Sorry, no trick today.'' = pre @ 123 # mid @ 125 # post\<close>
  proof
    assume \<open>\<exists>pre mid post. js ''Sorry, no trick today.'' = pre @ 123 # mid @ 125 # post\<close>
    then obtain pre mid post where \<open>js ''Sorry, no trick today.'' = pre @ 123 # mid @ 125 # post\<close>
      by blast
    then have \<open>123 \<in> set (js ''Sorry, no trick today.'')\<close> by simp
    then show False by (simp add: js_def)
  qed
  have r: "case JSON_parse (123 # ?mid @ [125]) of
           None \<Rightarrow> parseGeneratedTrick ?content [js ''cup''] = fallbackTrick [js ''cup'']
         | Some parsed \<Rightarrow>
             \<exists>ms. parsed = JObject ms
               \<and> parseGeneratedTrick ?content [js ''cup''] =
                   \<lparr>title = js_or (member ms (js ''title''))
                              (JString (js ''Generated Magic Trick'')),
                    description = js_or (member ms (js ''description''))
                                    (JString (js ''A magical trick created just for you!'')),
                    instructions =
                      (if isArray (member ms (js ''instructions''))
                       then member ms (js ''instructions'')
                       else JArray [JString (js ''Follow the magic!'')]),
                    difficulty =
                      (if member ms (js ''difficulty'')
                            \<in> {JString (js ''Easy''), JString (js ''Medium''),
                               JString (js ''Hard'')}
                       then member ms (js ''difficulty'') else JString (js ''Easy'')),
                    items = (if isArray (member ms (js ''items'')) then member ms (js ''items'')
                             else JArray (map JString [js ''cup'']))\<rparr>"
    using C1_parseGeneratedTrick_amended [of ?content "[js ''cup'']", THEN conjunct2,
        rule_format, of ?pre ?mid ?post] c by blast
  have a: "parseGeneratedTrick ?content [js ''cup''] =
      \<lparr>title = JString (js ''Coin''),
        description = JString (js ''A magical trick created just for you!''),
        instructions = JArray [JString (js ''Follow the magic!'')],
        difficulty = JString (js ''Easy''),
        items = JArray [JString (js ''coin'')]\<rparr>"
    using r unfolding p by (simp add: member_def js_or_def isArray_def js_def)
  have b: \<open>parseGeneratedTrick (js ''Sorry, no trick today.'') [js ''cup''] = fallbackTrick [js ''cup'']\<close>
    using C1_parseGeneratedTrick_amended [of \<open>js ''Sorry, no trick today.''\<close> "[js ''cup'']"] n
    by blast
  from a b show ?thesis by blast
qed

text \<open>
  C1 as stated does not hold. In the first reply the field \<open>instructions\<close> is a
  string, not an array: the result keeps the parsed title and difficulty and is not the
  fallback trick. In the second the JSON is well formed, but the prose before it has
  braces of its own: the match starts at the first of them, does not parse, and the
  result is the fallback trick, not the embedded object. In the third the title is a
  number and is returned as such, so the result is not a trick as the interface declares it.
\<close>

theorem C1_parseGeneratedTrick_counterexample:
  \<open>parseGeneratedTrick
      (js ''Sure! {"title":"Coin Vanish","instructions":"palm it","difficulty":"Hard"} Enjoy.'')
      [js ''coin'']
     = \<lparr>title = JString (js ''Coin Vanish''),
        description = JString (js ''A magical trick created just for you!''),
        instructions = JArray [JString (js ''Follow the magic!'')],
        difficulty = JString (js ''Hard''),
        items = JArray [JString (js ''coin'')]\<rparr>
   \<and> parseGeneratedTrick
      (js ''Sure! {"title":"Coin Vanish","instructions":"palm it","difficulty":"Hard"} Enjoy.'')
      [js ''coin'']
     \<noteq> fallbackTrick [js ''coin'']
   \<and> JSON_parse (js ''{"title":"Coin Vanish"}'')
     = Some (JObject [(js ''title'', JString (js ''Coin Vanish''))])
   \<and> parseGeneratedTrick (js ''Use {a coin}: {"title":"Coin Vanish"}'') [js ''coin'']
     = fallbackTrick [js ''coin'']
   \<and> title (parseGeneratedTrick (js ''{"title":7}'') [js ''coin'']) = JNumber 7
   \<and> \<not> well_typed_trick (parseGeneratedTrick (js ''{"title":7}'') [js ''coin''])\<close>
proof -
  have a: \<open>parseGeneratedTrick
      (js ''Sure! {"title":"Coin Vanish","instructions":"palm it","difficulty":"Hard"} Enjoy.'')
      [js ''coin'']
     = \<lparr>title = JString (js ''Coin Vanish''),
        description = JString (js ''A magical trick created just for you!''),
        instructions = JArray [JString (js ''Follow the magic!'')],
        difficulty = JString (js ''Hard''),
        items = JArray [JString (js ''coin'')]\<rparr>\<close>
    by (simp add: parseGeneratedTrick_def parseGeneratedTrick_try_def jsonMatch_def json_eval
        member_def js_or_def isArray_def)
  have b: \<open>JSON_parse (js ''{"title":"Coin Vanish"}'')
     = Some (JObject [(js ''title'', JString (js ''Coin Vanish''))])\<close>
    by (simp add: json_eval)
  have c: \<open>parseGeneratedTrick (js ''Use {a coin}: {"title":"Coin Vanish"}'') [js ''coin'']
     = fallbackTrick [js ''coin'']\<close>
    by (simp add: parseGeneratedTrick_def parseGeneratedTrick_try_def jsonMatch_def json_eval)
  have d: \<open>parseGeneratedTrick (js ''{"title":7}'') [js ''coin'']
     = \<lparr>title = JNumber 7,
        description = JString (js ''A magical trick created just for you!''),
        instructions = JArray [JString (js ''Follow the magic!'')],
        difficulty = JString (js ''Easy''),
        items = JArray [JString (js ''coin'')]\<rparr>\<close>
    by (simp add: parseGeneratedTrick_def parseGeneratedTrick_try_def jsonMatch_def json_eval
        member_def js_or_def isArray_def)
  have e: \<open>\<not> well_typed_trick (parseGeneratedTrick (js ''{"title":7}'') [js ''coin''])\<close>
    by (simp add: d well_typed_trick_def isStringValue_def)
  from a b c d e show ?thesis by (simp add: fallbackTrick_def js_def)
qed

lemma isArray_JArray: "isArray (JArray xs)"
  by (simp add: isArray_def)

lemma fallbackTrick_fields:
  "difficulty (fallbackTrick req) = JString (js ''Easy'')"
  "truthy (title (fallbackTrick req))" "truthy (description (fallbackTrick req))"
  "isArray (instructions (fallbackTrick req))" "items (fallbackTrick req) = JArray (map JString req)"
  by (simp_all add: fallbackTrick_def isArray_def js_def)

lemma parsed_trick_fields:
  assumes "parseGeneratedTrick_try content req = Some r"
  shows "difficulty r \<in> {JString (js ''Easy''), JString (js ''Medium''), JString (js ''Hard'')}"
    and "truthy (title r)" and "truthy (description r)"
    and "isArray (instructions r)" and "isArray (items r)"
proof -
  from assms obtain t d i df it where
    r: "r = \<lparr>title = js_or t (JString (js ''Generated Magic Trick'')),
             description = js_or d (JString (js ''A magical trick created just for you!'')),
             instructions = (if isArray i then i else JArray [JString (js ''Follow the magic!'')]),
             difficulty =
               (if df \<in> set [JString (js ''Easy''), JString (js ''Medium''), JString (js ''Hard'')]
                then df else JString (js ''Easy'')),
             items = (if isArray it then it else JArray (map JString req))\<rparr>"
    by (auto simp: parseGeneratedTrick_try_def split: option.splits)
  show "difficulty r \<in> {JString (js ''Easy''), JString (js ''Medium''), JString (js ''Hard'')}"
    by (simp add: r)
  show "truthy (title r)" by (simp add: r truthy_js_or js_def)
  show "truthy (description r)" by (simp add: r truthy_js_or js_def)
  show "isArray (instructions r)" by (simp add: r isArray_def)
  show "isArray (items r)" by (simp add: r isArray_def)
qed

text \<open>
  C9, as amended. For every reply and every list of requested items the trick returned
  has a difficulty that is one of \<open>'Easy'\<close>, \<open>'Medium'\<close>, \<open>'Hard'\<close>; a title and
  a description that are truthy (so neither \<^verbatim>\<open>undefined\<close> nor an empty string);
  instructions and items that are arrays, possibly empty ones; and no field is
  \<^verbatim>\<open>undefined\<close>. Its items are the requested items whenever nothing was parsed (no
  match, or a syntax error) and whenever the parsed object has no \<open>items\<close> member or
  one that is not an array.
\<close>

theorem C9_parseGeneratedTrick_fields:
  "(let r = parseGeneratedTrick content req in
      difficulty r \<in> {JString (js ''Easy''), JString (js ''Medium''), JString (js ''Hard'')}
      \<and> truthy (title r) \<and> truthy (description r)
      \<and> isArray (instructions r) \<and> isArray (items r)
      \<and> title r \<noteq> JUndefined \<and> description r \<noteq> JUndefined \<and> instructions r \<noteq> JUndefined
      \<and> difficulty r \<noteq> JUndefined \<and> items r \<noteq> JUndefined
      \<and> (jsonMatch content = None \<longrightarrow> items r = JArray (map JString req))
      \<and> (\<forall>m. jsonMatch content = Some m \<and> JSON_parse m = None \<longrightarrow>
            items r = JArray (map JString req))
      \<and> (\<forall>m ms. jsonMatch content = Some m \<and> JSON_parse m = Some (JObject ms)
               \<and> \<not> isArray (member ms (js ''items'')) \<longrightarrow>
            items r = JArray (map JString req)))"
proof -
  let ?r = "parseGeneratedTrick content req"
  have f: "difficulty ?r \<in> {JString (js ''Easy''), JString (js ''Medium''), JString (js ''Hard'')}
      \<and> truthy (title ?r) \<and> truthy (description ?r)
      \<and> isArray (instructions ?r) \<and> isArray (items ?r)"
  proof (cases "parseGeneratedTrick_try content req")
    case None
    then have "?r = fallbackTrick req" by (simp add: parseGeneratedTrick_def)
    then show ?thesis by (simp add: fallbackTrick_fields isArray_JArray)
  next
    case (Some r)
    then have "?r = r" by (simp add: parseGeneratedTrick_def)
    with parsed_trick_fields [OF Some] show ?thesis by simp
  qed
  then have u: "title ?r \<noteq> JUndefined \<and> description ?r \<noteq> JUndefined
      \<and> instructions ?r \<noteq> JUndefined \<and> difficulty ?r \<noteq> JUndefined \<and> items ?r \<noteq> JUndefined"
    using truthy_defined isArray_defined by auto
  have a: "items ?r = JArray (map JString req)" if "jsonMatch content = None"
    using parseGeneratedTrick_no_match [OF that] by (simp add: fallbackTrick_fields)
  have b: "items ?r = JArray (map JString req)"
    if "jsonMatch content = Some m \<and> JSON_parse m = None" for m
    using parseGeneratedTrick_syntax_error [of content m req] that
    by (simp add: fallbackTrick_fields)
  have c: "items ?r = JArray (map JString req)"
    if "jsonMatch content = Some m \<and> JSON_parse m = Some (JObject ms)
          \<and> \<not> isArray (member ms (js ''items''))" for m ms
    using parseGeneratedTrick_try_object [of content m ms req] that
    by (simp add: parseGeneratedTrick_def)
  from f u a b c show ?thesis unfolding Let_def by blast
qed

text \<open>An instance: an object with a title only; the items are the requested ones.\<close>

theorem C9_parseGeneratedTrick_fields_witness:
  \<open>jsonMatch (js ''Try this: {"title":"Coin"}'') = Some (js ''{"title":"Coin"}'')
   \<and> JSON_parse (js ''{"title":"Coin"}'') = Some (JObject [(js ''title'', JString (js ''Coin''))])
   \<and> \<not> isArray (member [(js ''title'', JString (js ''Coin''))] (js ''items''))
   \<and> items (parseGeneratedTrick (js ''Try this: {"title":"Coin"}'') [js ''coin'', js ''cup''])
       = JArray [JString (js ''coin''), JString (js ''cup'')]\<close>
proof -
  have m: \<open>jsonMatch (js ''Try this: {"title":"Coin"}'') = Some (js ''{"title":"Coin"}'')\<close>
    by (simp add: jsonMatch_def js_def)
  have p: \<open>JSON_parse (js ''{"title":"Coin"}'') = Some (JObject [(js ''title'', JString (js ''Coin''))])\<close>
    by (simp add: json_eval)
  have i: \<open>\<not> isArray (member [(js ''title'', JString (js ''Coin''))] (js ''items''))\<close>
    by (simp add: member_def isArray_def js_def)
  have \<open>items (parseGeneratedTrick (js ''Try this: {"title":"Coin"}'') [js ''coin'', js ''cup''])
       = JArray (map JString [js ''coin'', js ''cup''])\<close>
    using C9_parseGeneratedTrick_fields
      [of \<open>js ''Try this: {"title":"Coin"}''\<close> \<open>[js ''coin'', js ''cup'']\<close>] m p i
    unfolding Let_def by blast
  with m p i show ?thesis by simp
qed

text \<open>
  C9 as stated does not hold for the two array fields: an empty array in the reply is an
  array, so it is returned as it is. Here \<open>instructions\<close> and \<open>items\<close> are empty,
  and they are the parsed values, not the defaults (\<open>['Follow the magic!']\<close> and the
  requested items).
\<close>

theorem C9_parseGeneratedTrick_fields_counterexample:
  \<open>parseGeneratedTrick (js ''{"title":"Coin","instructions":[],"items":[]}'') [js ''coin'']
     = \<lparr>title = JString (js ''Coin''),
        description = JString (js ''A magical trick created just for you!''),
        instructions = JArray [],
        difficulty = JString (js ''Easy''),
        items = JArray []\<rparr>\<close>
  by (simp add: parseGeneratedTrick_def parseGeneratedTrick_try_def jsonMatch_def json_eval
      member_def js_or_def isArray_def)

section \<open>Properties of trick generation\<close>

text \<open>
  C4, as amended. \<open>generateMagicTrick\<close> always returns a response; no exception
  reaches its caller. A response with \<open>success = true\<close> carries a trick. With no API
  key, with a reply that has no content, and with a remote call that throws, the response
  has \<open>success = false\<close> and an error message. The message is a fixed, non-empty text
  in the first two cases and for a thrown value that is not an \<^verbatim>\<open>Error\<close>; for a
  thrown \<^verbatim>\<open>Error\<close> it is that error's own message, passed on unchecked, so it is
  non-empty exactly when that message is.
\<close>

theorem C4_generateMagicTrick_total:
  "\<exists>r. generateMagicTrick key api request = Returns r
     \<and> (success r \<longrightarrow> trick r \<noteq> None)
     \<and> (falsy_string key \<longrightarrow> \<not> success r \<and> (\<exists>m. error r = Some m \<and> m \<noteq> []))
     \<and> (\<forall>msg. api = Returns msg \<and> falsy_string (case msg of [] \<Rightarrow> None | block # _ \<Rightarrow> block)
           \<longrightarrow> \<not> success r \<and> (\<exists>m. error r = Some m \<and> m \<noteq> []))
     \<and> (api = Throws NonError \<longrightarrow> \<not> success r \<and> (\<exists>m. error r = Some m \<and> m \<noteq> []))
     \<and> (\<forall>text. api = Throws (ErrorObject text) \<longrightarrow>
           \<not> success r \<and> (falsy_string key \<or> error r = Some text)
           \<and> (text \<noteq> [] \<longrightarrow> (\<exists>m. error r = Some m \<and> m \<noteq> [])))"
proof (cases "falsy_string key")
  case True
  then show ?thesis by (simp add: generateMagicTrick_def js_def)
next
  case False
  show ?thesis
  proof (cases api)
    case (Throws e)
    with False show ?thesis
      by (cases e) (simp_all add: generateMagicTrick_def generateMagicTrick_try_def js_def)
  next
    case (Returns msg)
    show ?thesis
    proof (cases "falsy_string (case msg of [] \<Rightarrow> None | block # _ \<Rightarrow> block)")
      case True
      with False Returns show ?thesis
        by (simp add: generateMagicTrick_def generateMagicTrick_try_def js_def)
    next
      case f: False
      then obtain c where "(case msg of [] \<Rightarrow> None | block # _ \<Rightarrow> block) = Some c"
        by (cases "case msg of [] \<Rightarrow> None | block # _ \<Rightarrow> block") (auto simp: falsy_string_def)
      with False Returns f show ?thesis
        by (simp add: generateMagicTrick_def generateMagicTrick_try_def)
    qed
  qed
qed

text \<open>
  An instance: a configured key and a remote call that fails with a non-empty message;
  and a reply whose first block carries a trick.
\<close>

theorem C4_generateMagicTrick_total_witness:
  \<open>generateMagicTrick (Some (js ''sk-key'')) (Throws (ErrorObject (js ''Connection error.'')))
      \<lparr>req_items = [js ''coin''], req_difficulty = None, req_additionalContext = None\<rparr>
     = Returns \<lparr>success = False, trick = None, error = Some (js ''Connection error.'')\<rparr>
   \<and> generateMagicTrick None (Returns [Some (js ''{}'')])
      \<lparr>req_items = [js ''coin''], req_difficulty = None, req_additionalContext = None\<rparr>
     = Returns \<lparr>success = False, trick = None,
         error = Some (js ''Claude API key not configured. Please add VITE_CLAUDE_API_KEY to your environment variables.'')\<rparr>
   \<and> generateMagicTrick (Some (js ''sk-key'')) (Returns [])
      \<lparr>req_items = [js ''coin''], req_difficulty = None, req_additionalContext = None\<rparr>
     = Returns \<lparr>success = False, trick = None,
         error = Some (js ''No content received from Claude API'')\<rparr>\<close>
proof -
  let ?req = "\<lparr>req_items = [js ''coin''], req_difficulty = None, req_additionalContext = None\<rparr>"
  have k: "\<not> falsy_string (Some (js ''sk-key''))" by (simp add: falsy_string_def js_def)
  obtain r where r: "generateMagicTrick (Some (js ''sk-key''))
        (Throws (ErrorObject (js ''Connection error.''))) ?req = Returns r"
    and s: "\<not> success r" and e: "error r = Some (js ''Connection error.'')"
    using C4_generateMagicTrick_total [of "Some (js ''sk-key'')"
        "Throws (ErrorObject (js ''Connection error.''))" ?req] k
    by blast
  have t: "trick r = None"
    using r by (auto simp: generateMagicTrick_def generateMagicTrick_try_def k)
  have a: "generateMagicTrick (Some (js ''sk-key''))
        (Throws (ErrorObject (js ''Connection error.''))) ?req
     = Returns \<lparr>success = False, trick = None, error = Some (js ''Connection error.'')\<rparr>"
    using r s e t by (cases r) simp
  show ?thesis
    using a by (simp add: generateMagicTrick_def generateMagicTrick_try_def falsy_string_def js_def)
qed

text \<open>
  C4 as stated does not hold: when the remote call throws an \<^verbatim>\<open>Error\<close> whose
  message is the empty string, the response carries that empty string as its error
  message.
\<close>

theorem C4_generateMagicTrick_counterexample:
  "generateMagicTrick (Some (js ''sk-key'')) (Throws (ErrorObject []))
      \<lparr>req_items = [js ''coin''], req_difficulty = None, req_additionalContext = None\<rparr>
     = Returns \<lparr>success = False, trick = None, error = Some []\<rparr>"
  by (simp add: generateMagicTrick_def generateMagicTrick_try_def falsy_string_def js_def)

section \<open>Properties of profile creation\<close>

lemma createUserProfile_retry:
  assumes "permissionFailure (env s)" and "s < 2"
  shows "\<exists>au. authUserOf (env s) = Some au
           \<and> createUserProfile env u s =
               AuthGetUser # InsertUsers u (profileName au) (profileEmail au) [] (profileBio au)
               # SetTimeout 2000 # createUserProfile env u (s + 1)"
  using assms
  by (subst createUserProfile.simps)
    (auto simp: permissionFailure_def authUserOf_def
      split: outcome.splits auth_reply.splits insert_reply.splits)

lemma createUserProfile_final:
  assumes "insertFailure (env k)" and "2 \<le> k \<or> \<not> permissionFailure (env k)"
  shows "\<exists>au. authUserOf (env k) = Some au
           \<and> createUserProfile env u k =
               [AuthGetUser, InsertUsers u (profileName au) (profileEmail au) [] (profileBio au),
                SetUserProfile (tempProfile u au (env k)),
                SaveUserProfile (tempProfile u au (env k))]"
  using assms
  by (subst createUserProfile.simps)
    (auto simp: permissionFailure_def insertFailure_def authUserOf_def
      split: outcome.splits auth_reply.splits insert_reply.splits)

lemma createUserProfile_no_user:
  assumes "auth (env k) = Returns AuthError \<or> auth (env k) = Returns NoAuthUser"
  shows "createUserProfile env u k = [AuthGetUser]"
  using assms by (subst createUserProfile.simps) auto

lemma createUserProfile_timers:
  "\<forall>e \<in> set (createUserProfile env u k). isTimer e \<longrightarrow> e = SetTimeout 2000"
proof (induction env u k rule: createUserProfile.induct)
  case (1 env userId retryCount)
  show ?case
    apply (subst createUserProfile.simps)
    using 1
    apply (auto split: outcome.splits auth_reply.splits insert_reply.splits)
    done
qed

lemma createUserProfile_retries:
  "\<forall>j < retryCountOf (createUserProfile env u k). permissionFailure (env (k + j))"
proof (induction env u k rule: createUserProfile.induct)
  case (1 env userId retryCount)
  show ?case
  proof (cases "permissionFailure (env retryCount) \<and> retryCount < 2")
    case True
    then obtain au where
      e: "createUserProfile env userId retryCount =
               AuthGetUser # InsertUsers userId (profileName au) (profileEmail au) [] (profileBio au)
               # SetTimeout 2000 # createUserProfile env userId (retryCount + 1)"
      using createUserProfile_retry [of env retryCount userId] by blast
    from True obtain a c m where
      h: "auth (env retryCount) = Returns (AuthUser a)"
         "insert_result (env retryCount) = Returns (InsertError c m)"
         "isPermissionError c m" "retryCount < 2"
      by (auto simp: permissionFailure_def
          split: outcome.splits auth_reply.splits insert_reply.splits)
    have ih: "\<forall>j < retryCountOf (createUserProfile env userId (retryCount + 1)).
                permissionFailure (env (retryCount + 1 + j))"
      using 1 [OF h(1) refl h(2) refl] h(3,4) by simp
    show ?thesis
    proof (intro allI impI)
      fix j
      assume j: "j < retryCountOf (createUserProfile env userId retryCount)"
      show "permissionFailure (env (retryCount + j))"
      proof (cases j)
        case 0
        with True show ?thesis by simp
      next
        case (Suc i)
        with j have "i < retryCountOf (createUserProfile env userId (retryCount + 1))"
          by (simp add: e retryCountOf_def)
        with ih have "permissionFailure (env (retryCount + 1 + i))" by blast
        with Suc show ?thesis by simp
      qed
    qed
  next
    case False
    then have "retryCountOf (createUserProfile env userId retryCount) = 0"
      by (subst createUserProfile.simps)
        (auto simp: retryCountOf_def permissionFailure_def
          split: outcome.splits auth_reply.splits insert_reply.splits)
    then show ?thesis by simp
  qed
qed

lemma createUserProfile_shape2:
  "insertsAndTimers (createUserProfile env u 2) \<in> {[], [False]}"
  by (subst createUserProfile.simps)
    (auto simp: insertsAndTimers_def
      split: outcome.splits auth_reply.splits insert_reply.splits)

lemma createUserProfile_shape1:
  "insertsAndTimers (createUserProfile env u 1) \<in> {[], [False], [False, True], [False, True, False]}"
proof (cases "permissionFailure (env 1)")
  case True
  then obtain au where
    "createUserProfile env u 1 =
       AuthGetUser # InsertUsers u (profileName au) (profileEmail au) [] (profileBio au)
       # SetTimeout 2000 # createUserProfile env u 2"
    using createUserProfile_retry [of env 1 u] by (auto simp: numeral_2_eq_2)
  then have "insertsAndTimers (createUserProfile env u 1)
      = False # True # insertsAndTimers (createUserProfile env u 2)"
    by (simp add: insertsAndTimers_def)
  with createUserProfile_shape2 [of env u] show ?thesis by auto
next
  case False
  then show ?thesis
    by (subst createUserProfile.simps)
      (auto simp: insertsAndTimers_def permissionFailure_def
        split: outcome.splits auth_reply.splits insert_reply.splits)
qed

lemma createUserProfile_shape0:
  "insertsAndTimers (createUserProfile env u 0)
     \<in> {[], [False], [False, True], [False, True, False], [False, True, False, True],
        [False, True, False, True, False]}"
proof (cases "permissionFailure (env 0)")
  case True
  then obtain au where
    "createUserProfile env u 0 =
       AuthGetUser # InsertUsers u (profileName au) (profileEmail au) [] (profileBio au)
       # SetTimeout 2000 # createUserProfile env u 1"
    using createUserProfile_retry [of env 0 u] by auto
  then have "insertsAndTimers (createUserProfile env u 0)
      = False # True # insertsAndTimers (createUserProfile env u 1)"
    by (simp add: insertsAndTimers_def)
  with createUserProfile_shape1 [of env u] show ?thesis by auto
next
  case False
  then show ?thesis
    by (subst createUserProfile.simps)
      (auto simp: insertsAndTimers_def permissionFailure_def
        split: outcome.splits auth_reply.splits insert_reply.splits)
qed

lemma counts_of_shape:
  "insertCount es = length (filter Not (insertsAndTimers es))"
  "retryCountOf es = length (filter id (insertsAndTimers es))"
proof -
  show "insertCount es = length (filter Not (insertsAndTimers es))"
    unfolding insertCount_def insertsAndTimers_def
    by (induction es) (auto elim: isInsert.elims isTimer.elims)
  show "retryCountOf es = length (filter id (insertsAndTimers es))"
    unfolding retryCountOf_def insertsAndTimers_def
    by (induction es) auto
qed


lemma createUserProfile_unfold1:
  assumes "permissionFailure (env 0)"
  shows "\<exists>a0. createUserProfile env u 0 =
           [AuthGetUser, InsertUsers u (profileName a0) (profileEmail a0) [] (profileBio a0),
            SetTimeout 2000] @ createUserProfile env u 1"
proof -
  from createUserProfile_retry [of env 0 u] assms obtain a0 where
    "createUserProfile env u 0 =
       AuthGetUser # InsertUsers u (profileName a0) (profileEmail a0) [] (profileBio a0)
       # SetTimeout 2000 # createUserProfile env u 1"
    by auto
  then show ?thesis by auto
qed

lemma createUserProfile_unfold2:
  assumes "permissionFailure (env 0)" and "permissionFailure (env 1)"
  shows "\<exists>a0 a1. createUserProfile env u 0 =
           [AuthGetUser, InsertUsers u (profileName a0) (profileEmail a0) [] (profileBio a0),
            SetTimeout 2000,
            AuthGetUser, InsertUsers u (profileName a1) (profileEmail a1) [] (profileBio a1),
            SetTimeout 2000] @ createUserProfile env u 2"
proof -
  from createUserProfile_unfold1 [of env u] assms(1) obtain a0 where
    e0: "createUserProfile env u 0 =
           [AuthGetUser, InsertUsers u (profileName a0) (profileEmail a0) [] (profileBio a0),
            SetTimeout 2000] @ createUserProfile env u 1"
    by blast
  from createUserProfile_retry [of env 1 u] assms(2) obtain a1 where
    e1: "createUserProfile env u 1 =
       AuthGetUser # InsertUsers u (profileName a1) (profileEmail a1) [] (profileBio a1)
       # SetTimeout 2000 # createUserProfile env u 2"
    by (auto simp: numeral_2_eq_2)
  have "createUserProfile env u 0 =
           [AuthGetUser, InsertUsers u (profileName a0) (profileEmail a0) [] (profileBio a0),
            SetTimeout 2000,
            AuthGetUser, InsertUsers u (profileName a1) (profileEmail a1) [] (profileBio a1),
            SetTimeout 2000] @ createUserProfile env u 2"
    by (subst e0, subst e1) simp
  then show ?thesis by blast
qed

text \<open>The calls before call \<open>k\<close>, when each of them ended in a retry.\<close>

lemma createUserProfile_prefix:
  assumes "k \<le> 2" and "\<forall>j<k. permissionFailure (env j)"
  shows "\<exists>pre. createUserProfile env u 0 = pre @ createUserProfile env u k
           \<and> length (filter isInsert pre) = k \<and> length (filter isTimer pre) = k
           \<and> \<not> list_ex isSetProfile pre"
proof -
  consider "k = 0" | "k = 1" | "k = 2" using assms(1) by linarith
  then show ?thesis
  proof cases
    case 1
    then have "createUserProfile env u 0 = [] @ createUserProfile env u k" by simp
    then show ?thesis using 1 by fastforce
  next
    case 2
    with assms(2) have "permissionFailure (env 0)" by simp
    with createUserProfile_unfold1 [of env u] obtain a0 where
      "createUserProfile env u 0 =
           [AuthGetUser, InsertUsers u (profileName a0) (profileEmail a0) [] (profileBio a0),
            SetTimeout 2000] @ createUserProfile env u k"
      using 2 by blast
    moreover have "length (filter isInsert
           [AuthGetUser, InsertUsers u (profileName a0) (profileEmail a0) [] (profileBio a0),
            SetTimeout 2000]) = k" using 2 by simp
    moreover have "length (filter isTimer
           [AuthGetUser, InsertUsers u (profileName a0) (profileEmail a0) [] (profileBio a0),
            SetTimeout 2000]) = k" using 2 by simp
    moreover have "\<not> list_ex isSetProfile
           [AuthGetUser, InsertUsers u (profileName a0) (profileEmail a0) [] (profileBio a0),
            SetTimeout 2000]" by simp
    ultimately show ?thesis by blast
  next
    case 3
    with assms(2) have p: "permissionFailure (env 0)" "permissionFailure (env 1)" by simp_all
    from createUserProfile_unfold2 [of env u] p obtain a0 a1 where
      "createUserProfile env u 0 =
           [AuthGetUser, InsertUsers u (profileName a0) (profileEmail a0) [] (profileBio a0),
            SetTimeout 2000,
            AuthGetUser, InsertUsers u (profileName a1) (profileEmail a1) [] (profileBio a1),
            SetTimeout 2000] @ createUserProfile env u k"
      using 3 by blast
    moreover have "length (filter isInsert
           [AuthGetUser, InsertUsers u (profileName a0) (profileEmail a0) [] (profileBio a0),
            SetTimeout 2000,
            AuthGetUser, InsertUsers u (profileName a1) (profileEmail a1) [] (profileBio a1),
            SetTimeout 2000]) = k" using 3 by simp
    moreover have "length (filter isTimer
           [AuthGetUser, InsertUsers u (profileName a0) (profileEmail a0) [] (profileBio a0),
            SetTimeout 2000,
            AuthGetUser, InsertUsers u (profileName a1) (profileEmail a1) [] (profileBio a1),
            SetTimeout 2000]) = k" using 3 by simp
    moreover have "\<not> list_ex isSetProfile
           [AuthGetUser, InsertUsers u (profileName a0) (profileEmail a0) [] (profileBio a0),
            SetTimeout 2000,
            AuthGetUser, InsertUsers u (profileName a1) (profileEmail a1) [] (profileBio a1),
            SetTimeout 2000]" by simp
    ultimately show ?thesis by blast
  qed
qed

lemma createUserProfile_all_failed:
  assumes "k \<le> 2" and "\<forall>j<k. permissionFailure (env j)" and "insertFailure (env k)"
    and "k = 2 \<or> \<not> permissionFailure (env k)"
  shows "\<exists>au pre. authUserOf (env k) = Some au
           \<and> createUserProfile env u 0 =
               pre @ [SetUserProfile (tempProfile u au (env k)),
                      SaveUserProfile (tempProfile u au (env k))]
           \<and> insertCount (createUserProfile env u 0) = k + 1
           \<and> retryCountOf (createUserProfile env u 0) = k"
proof -
  from createUserProfile_final [of env k u] assms(3,4) obtain au where
    au: "authUserOf (env k) = Some au"
    and f: "createUserProfile env u k =
               [AuthGetUser, InsertUsers u (profileName au) (profileEmail au) [] (profileBio au)]
               @ [SetUserProfile (tempProfile u au (env k)),
                  SaveUserProfile (tempProfile u au (env k))]"
    by auto
  from createUserProfile_prefix [of k env u] assms(1,2) obtain pre where
    e: "createUserProfile env u 0 = pre @ createUserProfile env u k"
    and i: "length (filter isInsert pre) = k" and t: "length (filter isTimer pre) = k"
    by blast
  have "createUserProfile env u 0 =
      (pre @ [AuthGetUser, InsertUsers u (profileName au) (profileEmail au) [] (profileBio au)])
      @ [SetUserProfile (tempProfile u au (env k)), SaveUserProfile (tempProfile u au (env k))]"
    by (subst e, subst f) simp
  moreover have "insertCount (createUserProfile env u 0) = k + 1"
    by (subst e, subst f) (simp add: insertCount_def i)
  moreover have "retryCountOf (createUserProfile env u 0) = k"
    by (subst e, subst f) (simp add: retryCountOf_def t)
  ultimately show ?thesis using au by blast
qed

lemma createUserProfile_lookup_failed:
  assumes "k \<le> 2" and "\<forall>j<k. permissionFailure (env j)"
    and "auth (env k) = Returns AuthError \<or> auth (env k) = Returns NoAuthUser"
  shows "\<not> list_ex isSetProfile (createUserProfile env u 0)"
proof -
  have f: "createUserProfile env u k = [AuthGetUser]"
    using createUserProfile_no_user [of env k u] assms(3) by blast
  from createUserProfile_prefix [of k env u] assms(1,2) obtain pre where
    e: "createUserProfile env u 0 = pre @ createUserProfile env u k"
    and n: "\<not> list_ex isSetProfile pre"
    by blast
  show ?thesis by (subst e, subst f) (simp add: n)
qed

text \<open>
  C5, as amended. A run of \<open>createUserProfile\<close> that starts with retry count 0 sends
  the insert at most three times, and between two inserts it starts exactly one timer: the
  inserts and timers of a run are a beginning of insert, timer, insert, timer, insert.
  Every timer is of 2000 milliseconds, and each is started only after an insert that
  failed with a permission error (code 42501, or a message that contains
  \<open>permission\<close>). When the user lookup of every call succeeds and nothing throws, and
  the inserts of the calls \<open>0, ..., k - 1\<close> fail with a permission error and the insert
  of call \<open>k\<close> fails for good (with another error, or as the third one), the run has
  sent \<open>k + 1\<close> inserts and ends by setting a temporary profile, built from the
  authenticated user, in the application state and saving it to the local cache. When the
  user lookup of a call returns an error or no user, the run ends there and no profile,
  temporary or not, is set.
\<close>

theorem C5_createUserProfile_amended:
  "insertsAndTimers (createUserProfile env userId 0)
     \<in> {[], [False], [False, True], [False, True, False], [False, True, False, True],
        [False, True, False, True, False]}
   \<and> insertCount (createUserProfile env userId 0) \<le> 3
   \<and> retryCountOf (createUserProfile env userId 0) \<le> 2
   \<and> (\<forall>e \<in> set (createUserProfile env userId 0). isTimer e \<longrightarrow> e = SetTimeout 2000)
   \<and> (\<forall>j < retryCountOf (createUserProfile env userId 0). permissionFailure (env j))
   \<and> (\<forall>k \<le> 2. (\<forall>j<k. permissionFailure (env j)) \<and> insertFailure (env k)
                \<and> (k = 2 \<or> \<not> permissionFailure (env k)) \<longrightarrow>
          (\<exists>au pre. authUserOf (env k) = Some au
             \<and> createUserProfile env userId 0 =
                 pre @ [SetUserProfile (tempProfile userId au (env k)),
                        SaveUserProfile (tempProfile userId au (env k))]
             \<and> insertCount (createUserProfile env userId 0) = k + 1
             \<and> retryCountOf (createUserProfile env userId 0) = k))
   \<and> (\<forall>k \<le> 2. (\<forall>j<k. permissionFailure (env j))
                \<and> (auth (env k) = Returns AuthError \<or> auth (env k) = Returns NoAuthUser) \<longrightarrow>
          \<not> list_ex isSetProfile (createUserProfile env userId 0))"
proof -
  let ?tr = "createUserProfile env userId 0"
  have s: "insertsAndTimers ?tr
     \<in> {[], [False], [False, True], [False, True, False], [False, True, False, True],
        [False, True, False, True, False]}"
    by (rule createUserProfile_shape0)
  have i: "insertCount ?tr \<le> 3" using s unfolding counts_of_shape by auto
  have r: "retryCountOf ?tr \<le> 2" using s unfolding counts_of_shape by auto
  have t: "\<forall>e \<in> set ?tr. isTimer e \<longrightarrow> e = SetTimeout 2000"
    by (rule createUserProfile_timers)
  have p: "\<forall>j < retryCountOf ?tr. permissionFailure (env j)"
    using createUserProfile_retries [of env userId 0] by simp
  have a: "\<forall>k \<le> 2. (\<forall>j<k. permissionFailure (env j)) \<and> insertFailure (env k)
                \<and> (k = 2 \<or> \<not> permissionFailure (env k)) \<longrightarrow>
          (\<exists>au pre. authUserOf (env k) = Some au
             \<and> ?tr = pre @ [SetUserProfile (tempProfile userId au (env k)),
                        SaveUserProfile (tempProfile userId au (env k))]
             \<and> insertCount ?tr = k + 1 \<and> retryCountOf ?tr = k)"
    using createUserProfile_all_failed [of _ env userId] by blast
  have n: "\<forall>k \<le> 2. (\<forall>j<k. permissionFailure (env j))
                \<and> (auth (env k) = Returns AuthError \<or> auth (env k) = Returns NoAuthUser) \<longrightarrow>
          \<not> list_ex isSetProfile ?tr"
    using createUserProfile_lookup_failed [of _ env userId] by blast
  from s i r t p a n show ?thesis by blast
qed

text \<open>
  An instance: every insert fails with a permission error. The run sends three inserts,
  two seconds apart, and ends with the temporary profile of \<open>ann@example.org\<close>.
\<close>

theorem C5_createUserProfile_amended_witness:
  "createUserProfile
      (\<lambda>k. \<lparr>auth = Returns (AuthUser \<lparr>au_email = Some (js ''ann@example.org''),
                                       au_name = JUndefined, au_bio = JUndefined\<rparr>),
             insert_result = Returns (InsertError (js ''42501'') (js ''permission denied'')),
             created_now = js ''2024-01-01T00:00:00.000Z'',
             updated_now = js ''2024-01-01T00:00:00.001Z''\<rparr>)
      (js ''u1'') 0
     = [AuthGetUser,
        InsertUsers (js ''u1'') (JString (js ''ann'')) (js ''ann@example.org'') [] (JString []),
        SetTimeout 2000,
        AuthGetUser,
        InsertUsers (js ''u1'') (JString (js ''ann'')) (js ''ann@example.org'') [] (JString []),
        SetTimeout 2000,
        AuthGetUser,
        InsertUsers (js ''u1'') (JString (js ''ann'')) (js ''ann@example.org'') [] (JString []),
        SetUserProfile
          \<lparr>user_id = js ''u1'', user_name = JString (js ''ann''),
           user_email = js ''ann@example.org'', user_profile = [], user_bio = JString [],
           created_at = js ''2024-01-01T00:00:00.000Z'',
           updated_at = js ''2024-01-01T00:00:00.001Z''\<rparr>,
        SaveUserProfile
          \<lparr>user_id = js ''u1'', user_name = JString (js ''ann''),
           user_email = js ''ann@example.org'', user_profile = [], user_bio = JString [],
           created_at = js ''2024-01-01T00:00:00.000Z'',
           updated_at = js ''2024-01-01T00:00:00.001Z''\<rparr>]
   \<and> insertCount (createUserProfile
      (\<lambda>k. \<lparr>auth = Returns (AuthUser \<lparr>au_email = Some (js ''ann@example.org''),
                                       au_name = JUndefined, au_bio = JUndefined\<rparr>),
             insert_result = Returns (InsertError (js ''42501'') (js ''permission denied'')),
             created_now = js ''2024-01-01T00:00:00.000Z'',
             updated_now = js ''2024-01-01T00:00:00.001Z''\<rparr>)
      (js ''u1'') 0) = 3
   \<and> retryCountOf (createUserProfile
      (\<lambda>k. \<lparr>auth = Returns (AuthUser \<lparr>au_email = Some (js ''ann@example.org''),
                                       au_name = JUndefined, au_bio = JUndefined\<rparr>),
             insert_result = Returns (InsertError (js ''42501'') (js ''permission denied'')),
             created_now = js ''2024-01-01T00:00:00.000Z'',
             updated_now = js ''2024-01-01T00:00:00.001Z''\<rparr>)
      (js ''u1'') 0) = 2"
proof -
  let ?au = "\<lparr>au_email = Some (js ''ann@example.org''), au_name = JUndefined, au_bio = JUndefined\<rparr>"
  let ?env = "\<lambda>k::nat. \<lparr>auth = Returns (AuthUser ?au),
             insert_result = Returns (InsertError (js ''42501'') (js ''permission denied'')),
             created_now = js ''2024-01-01T00:00:00.000Z'',
             updated_now = js ''2024-01-01T00:00:00.001Z''\<rparr>"
  have p: "permissionFailure (?env j)" for j
    by (simp add: permissionFailure_def isPermissionError_def)
  have f: "insertFailure (?env 2)" by (simp add: insertFailure_def)
  have a: "authUserOf (?env 2) = Some ?au" by (simp add: authUserOf_def)
  have t: "tempProfile (js ''u1'') ?au (?env 2) =
      \<lparr>user_id = js ''u1'', user_name = JString (js ''ann''),
           user_email = js ''ann@example.org'', user_profile = [], user_bio = JString [],
           created_at = js ''2024-01-01T00:00:00.000Z'',
           updated_at = js ''2024-01-01T00:00:00.001Z''\<rparr>"
    by (simp add: tempProfile_def profileName_def profileEmail_def profileBio_def js_or_def js_def)
  have all: "\<forall>k \<le> 2. (\<forall>j<k. permissionFailure (?env j)) \<and> insertFailure (?env k)
                \<and> (k = 2 \<or> \<not> permissionFailure (?env k)) \<longrightarrow>
          (\<exists>au pre. authUserOf (?env k) = Some au
             \<and> createUserProfile ?env (js ''u1'') 0 =
                 pre @ [SetUserProfile (tempProfile (js ''u1'') au (?env k)),
                        SaveUserProfile (tempProfile (js ''u1'') au (?env k))]
             \<and> insertCount (createUserProfile ?env (js ''u1'') 0) = k + 1
             \<and> retryCountOf (createUserProfile ?env (js ''u1'') 0) = k)"
    using C5_createUserProfile_amended [of ?env "js ''u1''"] by blast
  have c: "insertCount (createUserProfile ?env (js ''u1'') 0) = 3
           \<and> retryCountOf (createUserProfile ?env (js ''u1'') 0) = 2"
    using all [rule_format, of 2] p f by auto
  have e: "createUserProfile ?env (js ''u1'') 0
     = [AuthGetUser,
        InsertUsers (js ''u1'') (JString (js ''ann'')) (js ''ann@example.org'') [] (JString []),
        SetTimeout 2000,
        AuthGetUser,
        InsertUsers (js ''u1'') (JString (js ''ann'')) (js ''ann@example.org'') [] (JString []),
        SetTimeout 2000,
        AuthGetUser,
        InsertUsers (js ''u1'') (JString (js ''ann'')) (js ''ann@example.org'') [] (JString []),
        SetUserProfile (tempProfile (js ''u1'') ?au (?env 2)),
        SaveUserProfile (tempProfile (js ''u1'') ?au (?env 2))]"
    by (simp add: createUserProfile.simps isPermissionError_def profileName_def
        profileEmail_def profileBio_def js_or_def js_def)
  from c e show ?thesis unfolding t by simp
qed

text \<open>
  C5 as stated does not hold. The first insert fails with a permission error and a retry
  is started; two seconds later the user lookup of the retry returns an error, and the
  call returns at once. Every insert that was sent has failed, and no profile, temporary
  or not, is set or saved.
\<close>

theorem C5_createUserProfile_counterexample:
  "createUserProfile
      (\<lambda>k. if k = 0 then
             \<lparr>auth = Returns (AuthUser \<lparr>au_email = Some (js ''ann@example.org''),
                                       au_name = JUndefined, au_bio = JUndefined\<rparr>),
              insert_result = Returns (InsertError (js ''42501'') (js ''permission denied'')),
              created_now = js ''2024-01-01T00:00:00.000Z'',
              updated_now = js ''2024-01-01T00:00:00.001Z''\<rparr>
           else
             \<lparr>auth = Returns AuthError,
              insert_result = Returns (InsertError (js ''42501'') (js ''permission denied'')),
              created_now = js ''2024-01-01T00:00:02.000Z'',
              updated_now = js ''2024-01-01T00:00:02.001Z''\<rparr>)
      (js ''u1'') 0
     = [AuthGetUser,
        InsertUsers (js ''u1'') (JString (js ''ann'')) (js ''ann@example.org'') [] (JString []),
        SetTimeout 2000,
        AuthGetUser]
   \<and> \<not> list_ex isSetProfile
        [AuthGetUser,
         InsertUsers (js ''u1'') (JString (js ''ann'')) (js ''ann@example.org'') [] (JString []),
         SetTimeout 2000,
         AuthGetUser]"
  by (simp add: createUserProfile.simps isPermissionError_def profileName_def
      profileEmail_def profileBio_def js_or_def js_def)

section \<open>Properties of the row-level security policies\<close>

lemma users_passes:
  "passes users_policies SELECT uid row"
  "passes users_policies INSERT uid row = (uid = Some (users_id row))"
  "passes users_policies UPDATE uid row = (uid = Some (users_id row))"
  "\<not> passes users_policies DELETE uid row"
  by (simp_all add: passes_def users_policies_def)

lemma magic_tricks_passes:
  "passes magic_tricks_policies SELECT uid row"
  "passes magic_tricks_policies INSERT uid row = (uid = Some (tricks_user_id row))"
  "passes magic_tricks_policies UPDATE uid row = (uid = Some (tricks_user_id row))"
  "passes magic_tricks_policies DELETE uid row = (uid = Some (tricks_user_id row))"
  by (simp_all add: passes_def magic_tricks_policies_def)

text \<open>
  C8. Under the policies of the setup script, a caller whose identity is not the owner of
  a row (the \<open>id\<close> of a profile row, the \<open>user_id\<close> of a trick row), signed in or
  not, can neither insert that row, nor update it (to any new row), nor delete it, in
  either table; and every caller, signed in or not, can read every row of both tables.
\<close>

theorem C8_row_level_security:
  "(uid \<noteq> Some (users_id profile_row) \<longrightarrow>
      \<not> may_insert users_policies uid profile_row
      \<and> \<not> may_update users_policies uid profile_row new_profile_row
      \<and> \<not> may_delete users_policies uid profile_row)
   \<and> (uid \<noteq> Some (tricks_user_id trick_row) \<longrightarrow>
      \<not> may_insert magic_tricks_policies uid trick_row
      \<and> \<not> may_update magic_tricks_policies uid trick_row new_trick_row
      \<and> \<not> may_delete magic_tricks_policies uid trick_row)
   \<and> may_select users_policies uid profile_row
   \<and> may_select magic_tricks_policies uid trick_row"
  by (simp add: may_insert_def may_update_def may_delete_def may_select_def
      users_passes magic_tricks_passes)

text \<open>
  An instance: user \<open>u2\<close> and the profile and a trick of user \<open>u1\<close>; the owner
  herself may update and delete her trick.
\<close>

theorem C8_row_level_security_witness:
  "Some (js ''u2'') \<noteq> Some (js ''u1'')
   \<and> \<not> may_insert users_policies (Some (js ''u2''))
         \<lparr>users_id = js ''u1'', users_name = js ''Ann'', users_profile = [],
          users_email = js ''ann@example.org'', users_bio = []\<rparr>
   \<and> \<not> may_update magic_tricks_policies (Some (js ''u2''))
         \<lparr>tricks_id = js ''t1'', tricks_user_id = js ''u1'', tricks_title = js ''Coin'',
          tricks_description = js ''Vanish'', tricks_instructions = [js ''Palm it''],
          tricks_difficulty = js ''Easy'', tricks_overall_rating = 0\<rparr>
         \<lparr>tricks_id = js ''t1'', tricks_user_id = js ''u1'', tricks_title = js ''Stolen'',
          tricks_description = js ''Vanish'', tricks_instructions = [js ''Palm it''],
          tricks_difficulty = js ''Easy'', tricks_overall_rating = 0\<rparr>
   \<and> \<not> may_delete magic_tricks_policies (Some (js ''u2''))
         \<lparr>tricks_id = js ''t1'', tricks_user_id = js ''u1'', tricks_title = js ''Coin'',
          tricks_description = js ''Vanish'', tricks_instructions = [js ''Palm it''],
          tricks_difficulty = js ''Easy'', tricks_overall_rating = 0\<rparr>
   \<and> may_delete magic_tricks_policies (Some (js ''u1''))
         \<lparr>tricks_id = js ''t1'', tricks_user_id = js ''u1'', tricks_title = js ''Coin'',
          tricks_description = js ''Vanish'', tricks_instructions = [js ''Palm it''],
          tricks_difficulty = js ''Easy'', tricks_overall_rating = 0\<rparr>
   \<and> may_select magic_tricks_policies None
         \<lparr>tricks_id = js ''t1'', tricks_user_id = js ''u1'', tricks_title = js ''Coin'',
          tricks_description = js ''Vanish'', tricks_instructions = [js ''Palm it''],
          tricks_difficulty = js ''Easy'', tricks_overall_rating = 0\<rparr>"
proof -
  let ?p = "\<lparr>users_id = js ''u1'', users_name = js ''Ann'', users_profile = [],
          users_email = js ''ann@example.org'', users_bio = []\<rparr>"
  let ?t = "\<lparr>tricks_id = js ''t1'', tricks_user_id = js ''u1'', tricks_title = js ''Coin'',
          tricks_description = js ''Vanish'', tricks_instructions = [js ''Palm it''],
          tricks_difficulty = js ''Easy'', tricks_overall_rating = 0\<rparr>"
  let ?t' = "\<lparr>tricks_id = js ''t1'', tricks_user_id = js ''u1'', tricks_title = js ''Stolen'',
          tricks_description = js ''Vanish'', tricks_instructions = [js ''Palm it''],
          tricks_difficulty = js ''Easy'', tricks_overall_rating = 0\<rparr>"
  have n: "Some (js ''u2'') \<noteq> Some (js ''u1'')" by (simp add: js_def)
  have o: "may_delete magic_tricks_policies (Some (js ''u1'')) ?t"
    by (simp add: may_delete_def magic_tricks_passes)
  show ?thesis
    using C8_row_level_security [of "Some (js ''u2'')" ?p ?p ?t ?t'] 
      C8_row_level_security [of None ?p ?p ?t ?t'] n o
    by simp
qed


end
